theory Spec2Isabelle
  imports Main
begin

unbundle bit_operations_syntax

section \<open>Python values used by the leader node and the verifier\<close>

text \<open>
  Strings are lists of characters; a character stands for the Unicode code point of the same
  number (0 to 255). Python integers are unbounded and are modelled by \<open>int\<close>.
\<close>

subsection \<open>\<open>str\<close> of an integer\<close>

definition digit_char :: "nat \<Rightarrow> char" where
  "digit_char d = ''0123456789abcdef'' ! d"

function str_nat :: "nat \<Rightarrow> string" where
  "str_nat n = (if n < 10 then [digit_char n] else str_nat (n div 10) @ [digit_char (n mod 10)])"
  by pat_completeness auto
termination
  by (relation "measure (\<lambda>n. n)") auto

declare str_nat.simps [simp del]

definition str_int :: "int \<Rightarrow> string" where
  "str_int i = (if i < 0 then CHR ''-'' # str_nat (nat (- i)) else str_nat (nat i))"

subsection \<open>Floats\<close>

text \<open>
  \<open>time.time()\<close> and the numbers of a telemetry payload are IEEE doubles. A finite double
  is modelled by the decimal that \<open>repr\<close> prints for it (the shortest decimal that reads back
  as the same double): \<open>Dec neg m e\<close> is the number \<open>m / 10 ^ e\<close>, negated when \<open>neg\<close> holds.
  Two doubles compare as their decimals do, and \<open>float_repr\<close> is the text that \<open>repr\<close> and
  \<open>json.dumps\<close> write. The product \<open>time.time() * 1000\<close> is taken exactly, where Python rounds
  it to a double before truncating, so the challenge number can differ by one from Python's for
  some readings; \<open>float_int\<close> is \<open>int\<close> for doubles below \<open>2 ^ 53\<close>, as clock readings are.
  No property below depends on the value of a challenge number.
\<close>

datatype pyfloat = Dec bool nat nat

fun float_num :: "pyfloat \<Rightarrow> int" where
  "float_num (Dec neg m e) = (if neg then - int m else int m)"

fun float_places :: "pyfloat \<Rightarrow> nat" where
  "float_places (Dec neg m e) = e"

definition float_le :: "pyfloat \<Rightarrow> pyfloat \<Rightarrow> bool" where
  "float_le a b = (float_num a * 10 ^ float_places b \<le> float_num b * 10 ^ float_places a)"

text \<open>\<open>int(x)\<close> truncates towards zero.\<close>

fun float_int :: "pyfloat \<Rightarrow> int" where
  "float_int (Dec neg m e) = (if neg then - int (m div 10 ^ e) else int (m div 10 ^ e))"

fun float_times :: "pyfloat \<Rightarrow> nat \<Rightarrow> pyfloat" where
  "float_times (Dec neg m e) k = Dec neg (m * k) e"

fun strip_zeros :: "string \<Rightarrow> string" where
  "strip_zeros [] = []"
| "strip_zeros (c # cs) =
     (let r = strip_zeros cs in if r = [] \<and> c = CHR ''0'' then [] else c # r)"

definition pad2 :: "string \<Rightarrow> string" where
  "pad2 s = (if length s < 2 then CHR ''0'' # s else s)"

text \<open>
  \<open>repr\<close> of a positive decimal from its significant digits \<open>ds\<close> and the position
  \<open>decpt\<close> of the decimal point (the value is \<open>0.ds * 10 ^ decpt\<close>): positional notation when
  \<open>-4 < decpt \<le> 16\<close>, exponent notation otherwise.
\<close>

definition repr_digits :: "string \<Rightarrow> int \<Rightarrow> string" where
  "repr_digits ds decpt =
     (if - 4 < decpt \<and> decpt \<le> 16 then
        (if decpt \<le> 0 then ''0.'' @ replicate (nat (- decpt)) CHR ''0'' @ ds
         else if int (length ds) \<le> decpt
           then ds @ replicate (nat decpt - length ds) CHR ''0'' @ ''.0''
         else take (nat decpt) ds @ ''.'' @ drop (nat decpt) ds)
      else
        hd ds # (if tl ds = [] then [] else CHR ''.'' # tl ds) @ ''e''
          @ (if decpt - 1 < 0 then ''-'' else ''+'') @ pad2 (str_nat (nat \<bar>decpt - 1\<bar>)))"

fun float_repr :: "pyfloat \<Rightarrow> string" where
  "float_repr (Dec neg m e) =
     (if neg then ''-'' else []) @
     (if m = 0 then ''0.0''
      else repr_digits (strip_zeros (str_nat m)) (int (length (str_nat m)) - int e))"

subsection \<open>JSON values and \<open>json.dumps(..., sort_keys=True)\<close>\<close>

datatype special = NaN | Infinity | NegInfinity

datatype json =
    JNull
  | JBool bool
  | JInt int
  | JFloat pyfloat
  | JSpecial special
  | JStr string
  | JArr "json list"
  | JObj "(string \<times> json) list"

text \<open>A dictionary with string keys, in insertion order. The dictionaries that Python holds
  have distinct keys; a lookup in the list takes the first entry of a key.\<close>

type_synonym pydict = "(string \<times> json) list"

text \<open>\<open>d.get(k)\<close>: the value, or \<open>None\<close>.\<close>

definition dict_get :: "pydict \<Rightarrow> string \<Rightarrow> json" where
  "dict_get d k = (case map_of d k of None \<Rightarrow> JNull | Some v \<Rightarrow> v)"

definition hex4 :: "nat \<Rightarrow> string" where
  "hex4 n = map (\<lambda>i. digit_char (n div 16 ^ i mod 16)) [3, 2, 1, 0]"

text \<open>The escapes of \<open>json.dumps\<close> with \<open>ensure_ascii\<close> (the default).\<close>

definition escape_char :: "char \<Rightarrow> string" where
  "escape_char c =
     (let n = (of_char c :: nat) in
      if c = CHR ''\"'' then [CHR 0x5C, CHR ''\"'']
      else if n = 0x5C then [CHR 0x5C, CHR 0x5C]
      else if n = 0x0A then [CHR 0x5C, CHR ''n'']
      else if n = 0x0D then [CHR 0x5C, CHR ''r'']
      else if n = 0x09 then [CHR 0x5C, CHR ''t'']
      else if n = 0x08 then [CHR 0x5C, CHR ''b'']
      else if n = 0x0C then [CHR 0x5C, CHR ''f'']
      else if n < 0x20 \<or> 0x7E < n then [CHR 0x5C, CHR ''u''] @ hex4 n
      else [c])"

definition dumps_str :: "string \<Rightarrow> string" where
  "dumps_str s = [CHR ''\"''] @ concat (map escape_char s) @ [CHR ''\"'']"

fun join :: "string \<Rightarrow> string list \<Rightarrow> string" where
  "join sep [] = []"
| "join sep [x] = x"
| "join sep (x # y # ys) = x @ sep @ join sep (y # ys)"

text \<open>Python compares strings code point by code point, a proper prefix first.\<close>

fun str_less :: "string \<Rightarrow> string \<Rightarrow> bool" where
  "str_less [] [] = False"
| "str_less [] (y # ys) = True"
| "str_less (x # xs) [] = False"
| "str_less (x # xs) (y # ys) =
     ((of_char x :: nat) < of_char y \<or> (x = y \<and> str_less xs ys))"

text \<open>A stable sort of the items of a dictionary by key, as \<open>sort_keys=True\<close> asks for.\<close>

fun insert_item :: "string \<times> 'a \<Rightarrow> (string \<times> 'a) list \<Rightarrow> (string \<times> 'a) list" where
  "insert_item x [] = [x]"
| "insert_item x (y # ys) = (if str_less (fst x) (fst y) then x # y # ys else y # insert_item x ys)"

definition sort_items :: "(string \<times> 'a) list \<Rightarrow> (string \<times> 'a) list" where
  "sort_items xs = foldr insert_item xs []"

fun dumps_special :: "special \<Rightarrow> string" where
  "dumps_special NaN = ''NaN''"
| "dumps_special Infinity = ''Infinity''"
| "dumps_special NegInfinity = ''-Infinity''"

text \<open>
  \<open>dumps v\<close> is \<open>json.dumps(v, sort_keys=True)\<close>, with the default separators. The values
  of a dictionary are written first and the written items are then put in key order, which is
  the text Python produces by sorting the items and writing each in turn.
\<close>

fun dumps :: "json \<Rightarrow> string" where
  "dumps JNull = ''null''"
| "dumps (JBool b) = (if b then ''true'' else ''false'')"
| "dumps (JInt i) = str_int i"
| "dumps (JFloat x) = float_repr x"
| "dumps (JSpecial x) = dumps_special x"
| "dumps (JStr s) = dumps_str s"
| "dumps (JArr vs) = ''['' @ join '', '' (map dumps vs) @ '']''"
| "dumps (JObj kvs) =
     ''{'' @ join '', '' (map (\<lambda>(k, t). dumps_str k @ '': '' @ t)
                          (sort_items (map (\<lambda>(k, v). (k, dumps v)) kvs))) @ ''}''"

section \<open>SHA-256\<close>

text \<open>
  \<open>hashlib.sha256(s.encode('utf-8')).hexdigest()\<close>, following FIPS 180-4. A 32-bit word is a
  natural number below \<open>2 ^ 32\<close>; additions are reduced modulo \<open>2 ^ 32\<close>. The round
  constants and the initial hash value are written in decimal.
\<close>

definition add32 :: "nat \<Rightarrow> nat \<Rightarrow> nat" where
  "add32 a b = (a + b) mod 4294967296"

definition rotr :: "nat \<Rightarrow> nat \<Rightarrow> nat" where
  "rotr n x = x div 2 ^ n + (x mod 2 ^ n) * 2 ^ (32 - n)"

definition shr :: "nat \<Rightarrow> nat \<Rightarrow> nat" where
  "shr n x = x div 2 ^ n"

definition not32 :: "nat \<Rightarrow> nat" where
  "not32 x = 4294967295 - x"

definition big_sigma0 :: "nat \<Rightarrow> nat" where
  "big_sigma0 x = rotr 2 x XOR rotr 13 x XOR rotr 22 x"

definition big_sigma1 :: "nat \<Rightarrow> nat" where
  "big_sigma1 x = rotr 6 x XOR rotr 11 x XOR rotr 25 x"

definition small_sigma0 :: "nat \<Rightarrow> nat" where
  "small_sigma0 x = rotr 7 x XOR rotr 18 x XOR shr 3 x"

definition small_sigma1 :: "nat \<Rightarrow> nat" where
  "small_sigma1 x = rotr 17 x XOR rotr 19 x XOR shr 10 x"

definition ch :: "nat \<Rightarrow> nat \<Rightarrow> nat \<Rightarrow> nat" where
  "ch x y z = (x AND y) XOR (not32 x AND z)"

definition maj :: "nat \<Rightarrow> nat \<Rightarrow> nat \<Rightarrow> nat" where
  "maj x y z = (x AND y) XOR (x AND z) XOR (y AND z)"

definition sha256_k :: "nat list" where
  "sha256_k =
    [1116352408, 1899447441, 3049323471, 3921009573, 961987163, 1508970993,
     2453635748, 2870763221, 3624381080, 310598401, 607225278, 1426881987,
     1925078388, 2162078206, 2614888103, 3248222580, 3835390401, 4022224774,
     264347078, 604807628, 770255983, 1249150122, 1555081692, 1996064986,
     2554220882, 2821834349, 2952996808, 3210313671, 3336571891, 3584528711,
     113926993, 338241895, 666307205, 773529912, 1294757372, 1396182291,
     1695183700, 1986661051, 2177026350, 2456956037, 2730485921, 2820302411,
     3259730800, 3345764771, 3516065817, 3600352804, 4094571909, 275423344,
     430227734, 506948616, 659060556, 883997877, 958139571, 1322822218,
     1537002063, 1747873779, 1955562222, 2024104815, 2227730452, 2361852424,
     2428436474, 2756734187, 3204031479, 3329325298]"

definition sha256_h0 :: "nat list" where
  "sha256_h0 =
    [1779033703, 3144134277, 1013904242, 2773480762, 1359893119, 2600822924,
     528734635, 1541459225]"

text \<open>The message schedule is kept as a window of the last sixteen words.\<close>

definition next_w :: "nat list \<Rightarrow> nat" where
  "next_w ws =
     add32 (add32 (small_sigma1 (ws ! 14)) (ws ! 9)) (add32 (small_sigma0 (ws ! 1)) (ws ! 0))"

definition shuffle :: "nat \<Rightarrow> nat \<Rightarrow> nat list \<Rightarrow> nat list" where
  "shuffle t1 t2 v =
     [add32 t1 t2, v ! 0, v ! 1, v ! 2, add32 (v ! 3) t1, v ! 4, v ! 5, v ! 6]"

definition round_step :: "nat \<Rightarrow> nat \<Rightarrow> nat list \<Rightarrow> nat list" where
  "round_step k w v =
     shuffle
       (add32 (add32 (add32 (v ! 7) (big_sigma1 (v ! 4))) (add32 (ch (v ! 4) (v ! 5) (v ! 6)) k)) w)
       (add32 (big_sigma0 (v ! 0)) (maj (v ! 0) (v ! 1) (v ! 2))) v"

fun rounds :: "nat list \<Rightarrow> nat list \<Rightarrow> nat list \<Rightarrow> nat list" where
  "rounds [] ws v = v"
| "rounds (k # ks) ws v = rounds ks (tl ws @ [next_w ws]) (round_step k (hd ws) v)"

definition compress :: "nat list \<Rightarrow> nat list \<Rightarrow> nat list" where
  "compress h ws = map2 add32 h (rounds sha256_k ws h)"

fun be_words :: "nat list \<Rightarrow> nat list" where
  "be_words (a # b # c # d # bs) = (((a * 256 + b) * 256 + c) * 256 + d) # be_words bs"
| "be_words _ = []"

function sha256_blocks :: "nat list \<Rightarrow> nat list \<Rightarrow> nat list" where
  "sha256_blocks h ws =
     (if length ws < 16 then h else sha256_blocks (compress h (take 16 ws)) (drop 16 ws))"
  by pat_completeness auto
termination
  by (relation "measure (\<lambda>(h, ws). length ws)") auto

declare sha256_blocks.simps [simp del]

definition be64 :: "nat \<Rightarrow> nat list" where
  "be64 n = map (\<lambda>i. n div 256 ^ i mod 256) [7, 6, 5, 4, 3, 2, 1, 0]"

definition sha256_pad :: "nat list \<Rightarrow> nat list" where
  "sha256_pad m =
     m @ [128] @ replicate ((119 - length m mod 64) mod 64) 0 @ be64 (8 * length m)"

definition hex32 :: "nat \<Rightarrow> string" where
  "hex32 w = map (\<lambda>i. digit_char (w div 16 ^ i mod 16)) [7, 6, 5, 4, 3, 2, 1, 0]"

text \<open>\<open>s.encode('utf-8')\<close> for code points below 256.\<close>

definition encode_utf8 :: "string \<Rightarrow> nat list" where
  "encode_utf8 s =
     concat (map (\<lambda>c. let n = of_char c in
                        if n < 128 then [n] else [192 + n div 64, 128 + n mod 64]) s)"

definition sha256_digest :: "nat list \<Rightarrow> nat list" where
  "sha256_digest m = sha256_blocks sha256_h0 (be_words (sha256_pad m))"

definition sha256_hexdigest :: "string \<Rightarrow> string" where
  "sha256_hexdigest s = concat (map hex32 (sha256_digest (encode_utf8 s)))"

section \<open>The clock\<close>

text \<open>
  The wall clock is an input of the program: \<open>T k\<close> is what the \<open>k\<close>-th call of
  \<open>time.time()\<close> returns. A function that reads the clock takes the number of readings made so
  far and returns the number made after it.
\<close>

type_synonym clock = "nat \<Rightarrow> pyfloat"

section \<open>The registry and the derivations (GCS\_LeaderNode.py, UAV\_Client.py)\<close>

definition UAV_DB :: "string \<rightharpoonup> string" where
  "UAV_DB = [''UAV_A1'' \<mapsto> ''K_LongTerm_A1'', ''UAV_B2'' \<mapsto> ''K_LongTerm_B2'']"

definition calculate_session_key_simulated :: "string \<Rightarrow> int \<Rightarrow> string" where
  "calculate_session_key_simulated long_term_key rand =
     take 16 (sha256_hexdigest (long_term_key @ str_int rand))"

text \<open>The response a client derives from its key and the challenge (UAV\_Client.py).\<close>

definition calculate_res_star_simulated :: "string \<Rightarrow> int \<Rightarrow> string" where
  "calculate_res_star_simulated long_term_key rand =
     take 10 (sha256_hexdigest (long_term_key @ str_int rand @ ''Expected''))"

definition generate_auth_vector_simulated ::
    "clock \<Rightarrow> nat \<Rightarrow> string \<Rightarrow> string \<Rightarrow> (int \<times> string \<times> string \<times> string) \<times> nat" where
  "generate_auth_vector_simulated T n uav_supi long_term_key =
     (let rand = float_int (float_times (T n) 1000);
          autn = sha256_hexdigest (long_term_key @ uav_supi @ str_int rand);
          xres_star = take 10 (sha256_hexdigest (long_term_key @ str_int rand @ ''Expected''))
      in ((rand, autn, xres_star, calculate_session_key_simulated long_term_key rand), Suc n))"

section \<open>Blocks\<close>

record block =
  index :: nat
  timestamp :: pyfloat
  previous_hash :: string
  event_log :: "pydict list"
  transactions :: "pydict list"
  current_hash :: string

text \<open>The dictionary that the code builds for a block and \<open>json.dump\<close> stores.\<close>

definition block_dict :: "block \<Rightarrow> pydict" where
  "block_dict b =
     [(''index'', JInt (int (index b))),
      (''timestamp'', JFloat (timestamp b)),
      (''previous_hash'', JStr (previous_hash b)),
      (''event_log'', JArr (map JObj (event_log b))),
      (''transactions'', JArr (map JObj (transactions b))),
      (''current_hash'', JStr (current_hash b))]"

section \<open>The sequential hash engine (class EPOH\_Core)\<close>

record epoh_core =
  difficulty :: nat
  latest_hash :: string
  sequence_count :: nat
  epoh_chain :: "block list"

definition EPOH_Core_init :: "nat \<Rightarrow> epoh_core" where
  "EPOH_Core_init d =
     \<lparr>difficulty = d, latest_hash = replicate 64 CHR ''0'', sequence_count = 0, epoh_chain = []\<rparr>"

definition generate_sequential_hash :: "epoh_core \<Rightarrow> string \<times> epoh_core" where
  "generate_sequential_hash core =
     (let new_hash = sha256_hexdigest (latest_hash core)
      in (new_hash, core\<lparr>latest_hash := new_hash, sequence_count := sequence_count core + 1\<rparr>))"

definition embed_transaction ::
    "clock \<Rightarrow> nat \<Rightarrow> epoh_core \<Rightarrow> pydict \<Rightarrow> (pyfloat \<times> string) \<times> epoh_core \<times> nat" where
  "embed_transaction T n core data_payload =
     (let data_string = dumps (JObj data_payload);
          h = sha256_hexdigest (latest_hash core @ data_string)
      in ((T n, h), core\<lparr>latest_hash := h, sequence_count := sequence_count core + 1\<rparr>, Suc n))"

text \<open>\<open>for _ in range(self.difficulty): self.generate_sequential_hash()\<close>\<close>

primrec advance :: "nat \<Rightarrow> epoh_core \<Rightarrow> epoh_core" where
  "advance 0 core = core"
| "advance (Suc k) core = advance k (snd (generate_sequential_hash core))"

text \<open>The loop of \<open>create_block\<close> over the transactions; the state is the engine, the
  number of clock readings and the event log so far.\<close>

fun embed_loop ::
    "clock \<Rightarrow> pydict list \<Rightarrow> epoh_core \<times> nat \<times> pydict list \<Rightarrow> epoh_core \<times> nat \<times> pydict list" where
  "embed_loop T [] st = st"
| "embed_loop T (tx # txs) (core, n, log) =
     (case embed_transaction T n (advance (difficulty core) core) tx of
        ((tx_time, tx_hash), core', n') \<Rightarrow>
          embed_loop T txs
            (core', n',
             log @ [[(''event_type'', JStr ''TRANSACTION_EMBEDDED''),
                     (''timestamp'', JFloat tx_time),
                     (''hash_at_event'', JStr tx_hash),
                     (''tx_id'', dict_get tx ''tx_id'')]]))"

definition create_block ::
    "clock \<Rightarrow> nat \<Rightarrow> epoh_core \<Rightarrow> pydict list \<Rightarrow> string \<Rightarrow> nat \<Rightarrow> block \<times> epoh_core \<times> nat" where
  "create_block T n core txs prev current_chain_length =
     (case embed_loop T txs (core\<lparr>latest_hash := prev, sequence_count := 0\<rparr>, n, []) of
        (core', n', log) \<Rightarrow>
          (\<lparr>index = current_chain_length + 1,
            timestamp = T n',
            previous_hash = prev,
            event_log = log,
            transactions = txs,
            current_hash = latest_hash core'\<rparr>, core', Suc n'))"

section \<open>The leader node (class LeaderNode)\<close>

text \<open>The ledger file: absent, not parseable as JSON, or a stored chain.\<close>

datatype ledger_file = Missing | Corrupt | Stored "block list"

record challenge =
  xres_star :: string
  ktx_sim :: string
  rand :: int
  issued_at :: pyfloat

record leader_node =
  chain :: "block list"
  transaction_pool :: "pydict list"
  pending_auth_challenges :: "string \<rightharpoonup> challenge"
  epoh :: epoh_core
  ledger :: ledger_file
  clock_reads :: nat

datatype py_error = IndexError | TypeError

text \<open>An empty stored chain raises IndexError at \<open>self.chain[-1]\<close>, which is caught.\<close>

definition load_chain :: "leader_node \<Rightarrow> leader_node" where
  "load_chain node =
     (case ledger node of
        Stored c \<Rightarrow>
          (if c = [] then node\<lparr>chain := []\<rparr>
           else node\<lparr>chain := c, epoh := (epoh node)\<lparr>latest_hash := current_hash (last c)\<rparr>\<rparr>)
      | Corrupt \<Rightarrow> node\<lparr>chain := []\<rparr>
      | Missing \<Rightarrow> node\<lparr>chain := []\<rparr>)"

definition save_chain :: "leader_node \<Rightarrow> leader_node" where
  "save_chain node = node\<lparr>ledger := Stored (chain node)\<rparr>"

definition create_genesis_block :: "clock \<Rightarrow> leader_node \<Rightarrow> leader_node" where
  "create_genesis_block T node =
     (case generate_sequential_hash (epoh node) of
        (h, core') \<Rightarrow>
          save_chain (node
            \<lparr>chain := chain node @
               [\<lparr>index = 0,
                 timestamp = T (clock_reads node),
                 previous_hash = ''0'',
                 event_log = [[(''event_type'', JStr ''CHAIN_START'')]],
                 transactions = [[(''tx_id'', JStr ''GENESIS_TX''), (''data'', JStr ''System Initialized'')]],
                 current_hash = h\<rparr>],
             epoh := core'\<lparr>latest_hash := h\<rparr>,
             clock_reads := Suc (clock_reads node)\<rparr>))"

text \<open>\<open>LeaderNode()\<close>, started on the ledger file \<open>file\<close> after \<open>n\<close> clock readings.\<close>

definition LeaderNode_init :: "clock \<Rightarrow> ledger_file \<Rightarrow> nat \<Rightarrow> leader_node" where
  "LeaderNode_init T file n =
     (let node = load_chain
            \<lparr>chain = [], transaction_pool = [], pending_auth_challenges = Map.empty,
             epoh = EPOH_Core_init 2, ledger = file, clock_reads = n\<rparr>
      in if chain node = [] then create_genesis_block T node else node)"

definition mine_block :: "clock \<Rightarrow> leader_node \<Rightarrow> py_error + leader_node" where
  "mine_block T node =
     (if transaction_pool node = [] then Inr node
      else if chain node = [] then Inl IndexError
      else
        (case create_block T (clock_reads node) (epoh node) (transaction_pool node)
                 (current_hash (last (chain node))) (length (chain node)) of
           (new_block, core', n') \<Rightarrow>
             Inr ((save_chain (node\<lparr>chain := chain node @ [new_block], epoh := core',
                                     clock_reads := n'\<rparr>))\<lparr>transaction_pool := []\<rparr>)))"

subsection \<open>\<open>handle_uav_request\<close>\<close>

text \<open>
  \<open>uav_supi not in UAV_DB\<close>: a string is looked up; a list or a dictionary cannot be hashed
  and raises TypeError; any other value is no key of the registry.
\<close>

fun registry_lookup :: "json \<Rightarrow> py_error + (string \<times> string) option" where
  "registry_lookup (JStr s) = Inr (map_option (\<lambda>k. (s, k)) (UAV_DB s))"
| "registry_lookup (JArr vs) = Inl TypeError"
| "registry_lookup (JObj kvs) = Inl TypeError"
| "registry_lookup v = Inr None"

text \<open>The two kinds of transaction the handler puts into the pool; \<open>now\<close> is the clock
  reading that enters the transaction id.\<close>

definition success_record :: "pyfloat \<Rightarrow> string \<Rightarrow> challenge \<Rightarrow> pydict" where
  "success_record now uav_supi pending_challenge =
     [(''tx_id'', JStr (''AUTH_SUCCESS_'' @ uav_supi @ ''_'' @ str_int (float_int now))),
      (''uav_supi'', JStr uav_supi),
      (''status'', JStr ''AUTHENTICATED''),
      (''session_key_sim'', JStr (ktx_sim pending_challenge)),
      (''auth_rand'', JInt (rand pending_challenge))]"

definition telemetry_record :: "pyfloat \<Rightarrow> string \<Rightarrow> json \<Rightarrow> pydict" where
  "telemetry_record now uav_supi telemetry_data =
     [(''tx_id'', JStr (''TELEMETRY_'' @ uav_supi @ ''_'' @ str_int (float_int now))),
      (''uav_supi'', JStr uav_supi),
      (''data'', telemetry_data)]"

text \<open>The branch \<open>AUTH_REQUEST_1\<close>.\<close>

definition auth_request_1 ::
    "clock \<Rightarrow> leader_node \<Rightarrow> string \<Rightarrow> string \<Rightarrow> pydict \<times> leader_node" where
  "auth_request_1 T node uav_supi long_term_key =
     (case generate_auth_vector_simulated T (clock_reads node) uav_supi long_term_key of
        ((r, autn, xres, ktx), n') \<Rightarrow>
          ([(''status'', JStr ''CHALLENGE_ISSUED''),
            (''rand'', JInt r),
            (''autn'', JStr autn),
            (''pk_node'', JStr ''NodePubKey_Sim'')],
           node\<lparr>pending_auth_challenges := (pending_auth_challenges node)
                   (uav_supi \<mapsto> \<lparr>xres_star = xres, ktx_sim = ktx, rand = r, issued_at = T n'\<rparr>),
                clock_reads := Suc n'\<rparr>))"

text \<open>The branch \<open>AUTH_RESPONSE_2\<close>.\<close>

definition auth_response_2 ::
    "clock \<Rightarrow> leader_node \<Rightarrow> string \<Rightarrow> pydict \<Rightarrow> py_error + pydict \<times> leader_node" where
  "auth_response_2 T node uav_supi request =
     (let res_star_received = dict_get request ''res_star'' in
      case pending_auth_challenges node uav_supi of
        None \<Rightarrow>
          Inr ([(''status'', JStr ''AUTH_FAILURE''),
                (''reason'', JStr ''RES* mismatch or no pending challenge'')], node)
      | Some pending_challenge \<Rightarrow>
          if res_star_received = JStr (xres_star pending_challenge) then
            (let session_key = ktx_sim pending_challenge;
                 success_tx = success_record (T (clock_reads node)) uav_supi pending_challenge
             in case mine_block T
                  (node\<lparr>transaction_pool := transaction_pool node @ [success_tx],
                        pending_auth_challenges := (pending_auth_challenges node)(uav_supi := None),
                        clock_reads := Suc (clock_reads node)\<rparr>) of
                  Inl e \<Rightarrow> Inl e
                | Inr node' \<Rightarrow>
                    Inr ([(''status'', JStr ''AUTH_SUCCESS''),
                          (''session_key'', JStr session_key)], node'))
          else
            Inr ([(''status'', JStr ''AUTH_FAILURE''),
                  (''reason'', JStr ''RES* mismatch or no pending challenge'')], node))"

text \<open>The branch \<open>TELEMETRY_TX\<close>.\<close>

definition telemetry_tx ::
    "clock \<Rightarrow> leader_node \<Rightarrow> string \<Rightarrow> pydict \<Rightarrow> py_error + pydict \<times> leader_node" where
  "telemetry_tx T node uav_supi request =
     (let telemetry_data = dict_get request ''data'';
          node1 = node
            \<lparr>transaction_pool := transaction_pool node @
               [telemetry_record (T (clock_reads node)) uav_supi telemetry_data],
             clock_reads := Suc (clock_reads node)\<rparr>
      in if 3 \<le> length (transaction_pool node1) then
           (case mine_block T node1 of
              Inl e \<Rightarrow> Inl e
            | Inr node2 \<Rightarrow>
                if chain node2 = [] then Inl IndexError
                else Inr ([(''status'', JStr ''TX_BLOCK_ACK''),
                           (''hash'', JStr (take 10 (current_hash (last (chain node2))))),
                           (''next_hash'', JStr (current_hash (last (chain node2))))], node2))
         else
           Inr ([(''status'', JStr ''TX_RECEIVED''),
                 (''hash_seed'', JStr (take 10 (latest_hash (epoh node1))))], node1))"

text \<open>
  One request, as the dictionary that \<open>json.loads\<close> returns for it: the response and the
  node afterwards, or the exception that ends the connection without a response.
\<close>

definition handle_uav_request ::
    "clock \<Rightarrow> leader_node \<Rightarrow> pydict \<Rightarrow> py_error + pydict \<times> leader_node" where
  "handle_uav_request T node request =
     (let request_type = dict_get request ''type'';
          uav_supi = dict_get request ''uav_supi''
      in case registry_lookup uav_supi of
           Inl e \<Rightarrow> Inl e
         | Inr None \<Rightarrow>
             Inr ([(''status'', JStr ''AUTH_FAILURE''),
                   (''reason'', JStr ''Unknown SUPI/UAV ID'')], node)
         | Inr (Some (supi, long_term_key)) \<Rightarrow>
             if request_type = JStr ''AUTH_REQUEST_1'' then
               Inr (auth_request_1 T node supi long_term_key)
             else if request_type = JStr ''AUTH_RESPONSE_2'' then
               auth_response_2 T node supi request
             else if request_type = JStr ''TELEMETRY_TX'' then
               telemetry_tx T node supi request
             else
               Inr ([(''status'', JStr ''ERROR''),
                     (''reason'', JStr ''Invalid Request Type'')], node))"

section \<open>The chain verifier (varify\_chain.py)\<close>

text \<open>The block without its \<open>current_hash\<close>, written with sorted keys and hashed.\<close>

definition hash_block :: "block \<Rightarrow> string" where
  "hash_block b =
     sha256_hexdigest (dumps (JObj (filter (\<lambda>kv. fst kv \<noteq> ''current_hash'') (block_dict b))))"

text \<open>
  What the verifier returns and prints when it stops at block \<open>i\<close>: the returned pair,
  followed by the lines printed about the failure.
\<close>

definition integrity_failure :: "nat \<Rightarrow> string \<Rightarrow> string \<Rightarrow> bool \<times> string \<times> string list" where
  "integrity_failure i expected recalculated =
     (False,
      ''Integrity Failure: Block #'' @ str_nat i @ '' links to tampered block #''
        @ str_nat (i - 1) @ ''.'',
      [''FAILED AT BLOCK #'' @ str_nat i @ '': Corrupted Linkage Detected.'',
       ''  Expected Hash of #'' @ str_nat (i - 1) @ '': '' @ expected,
       ''  Actual Recalculated Hash: '' @ recalculated])"

definition chronology_failure :: "nat \<Rightarrow> bool \<times> string \<times> string list" where
  "chronology_failure i =
     (False,
      ''PoH Chronology Failure: Block #'' @ str_nat i
        @ '' timestamp is not strictly greater than block #'' @ str_nat (i - 1) @ ''.'',
      [])"

text \<open>The loop \<open>for i in range(1, len(chain))\<close>.\<close>

function verify_from :: "block list \<Rightarrow> nat \<Rightarrow> bool \<times> string \<times> string list" where
  "verify_from c i =
     (if i < length c then
        (let current_block = c ! i;
             previous_block = c ! (i - 1);
             recalculated_hash = hash_block previous_block
         in if previous_hash current_block \<noteq> recalculated_hash then
              integrity_failure i (previous_hash current_block) recalculated_hash
            else if float_le (timestamp current_block) (timestamp previous_block) then
              chronology_failure i
            else verify_from c (Suc i))
      else (True, ''Chain is fully valid.'', []))"
  by pat_completeness auto
termination
  by (relation "measure (\<lambda>(c, i). length c - i)") auto

declare verify_from.simps [simp del]

definition is_valid_chain :: "ledger_file \<Rightarrow> bool \<times> string \<times> string list" where
  "is_valid_chain file =
     (case file of
        Stored c \<Rightarrow>
          if c = [] then (False, ''Chain is empty.'', [])
          else if previous_hash (c ! 0) \<noteq> ''0'' then
            (False, ''Genesis Block (Index 0) has an invalid previous_hash.'', [])
          else verify_from c 1
      | Corrupt \<Rightarrow> (False, ''Ledger file missing or corrupted (JSON Syntax Error).'', [])
      | Missing \<Rightarrow> (False, ''Ledger file missing or corrupted (JSON Syntax Error).'', []))"

section \<open>The requests of one connection\<close>

text \<open>
  The inner loop of \<open>start_leader_node\<close>: each request is handled on the node the previous
  one left, up to the first exception, which ends the connection.
\<close>

fun serve :: "clock \<Rightarrow> leader_node \<Rightarrow> pydict list \<Rightarrow> py_error + pydict list \<times> leader_node" where
  "serve T node [] = Inr ([], node)"
| "serve T node (request # rest) =
     (case handle_uav_request T node request of
        Inl e \<Rightarrow> Inl e
      | Inr (response, node') \<Rightarrow>
          (case serve T node' rest of
             Inl e \<Rightarrow> Inl e
           | Inr (responses, node'') \<Rightarrow> Inr (response # responses, node'')))"

section \<open>The resulting hash as the specification describes it\<close>

text \<open>
  The digest after \<open>k\<close> advances, and the resulting hash of a block as a function of the
  previous hash, the advance count and the serialised transactions alone.
\<close>

primrec iterate_hash :: "nat \<Rightarrow> string \<Rightarrow> string" where
  "iterate_hash 0 h = h"
| "iterate_hash (Suc k) h = iterate_hash k (sha256_hexdigest h)"

fun poh_digest :: "nat \<Rightarrow> string \<Rightarrow> string list \<Rightarrow> string" where
  "poh_digest d h [] = h"
| "poh_digest d h (s # ss) = poh_digest d (sha256_hexdigest (iterate_hash d h @ s)) ss"

text \<open>The block that \<open>mine_block\<close> appends to a node with a non-empty pool.\<close>

definition new_block :: "clock \<Rightarrow> leader_node \<Rightarrow> block" where
  "new_block T node =
     fst (create_block T (clock_reads node) (epoh node) (transaction_pool node)
            (current_hash (last (chain node))) (length (chain node)))"

section \<open>A concrete run\<close>

text \<open>A clock that starts at 1700000000.5 and advances by one second at every reading.\<close>

definition sample_clock :: clock where
  "sample_clock k = Dec False (17000000005 + 10 * k) 1"

text \<open>The node started without a ledger file, as the program starts it.\<close>

definition fresh_node :: leader_node where
  "fresh_node = LeaderNode_init sample_clock Missing 0"

definition telemetry_request :: "string \<Rightarrow> string \<Rightarrow> json \<Rightarrow> pydict" where
  "telemetry_request uav_supi session_key payload =
     [(''type'', JStr ''TELEMETRY_TX''), (''uav_supi'', JStr uav_supi),
      (''session_key'', JStr session_key), (''data'', payload)]"

definition sample_payload :: json where
  "sample_payload =
     JObj [(''x_pos'', JFloat (Dec False 1234 3)), (''y_pos'', JFloat (Dec True 5 1)),
           (''z_alt'', JFloat (Dec True 10 0)), (''vel_mag'', JFloat (Dec False 0 0))]"

definition sample_telemetry :: pydict where
  "sample_telemetry = telemetry_request ''UAV_A1'' ''f51c4e0959891777'' sample_payload"

text \<open>The fresh node after two telemetry requests of \<open>UAV_A1\<close>.\<close>

definition half_batch_node :: leader_node where
  "half_batch_node =
     fresh_node
       \<lparr>transaction_pool :=
          [telemetry_record (sample_clock 1) ''UAV_A1'' sample_payload,
           telemetry_record (sample_clock 2) ''UAV_A1'' sample_payload],
        clock_reads := 3\<rparr>"

definition auth_request :: "string \<Rightarrow> pydict" where
  "auth_request uav_supi = [(''type'', JStr ''AUTH_REQUEST_1''), (''uav_supi'', JStr uav_supi)]"

definition auth_response :: "string \<Rightarrow> string \<Rightarrow> pydict" where
  "auth_response uav_supi res_star =
     [(''type'', JStr ''AUTH_RESPONSE_2''), (''uav_supi'', JStr uav_supi), (''res_star'', JStr res_star)]"

text \<open>The fresh node after \<open>UAV_A1\<close> has asked for a challenge, and the challenge it holds.\<close>

definition challenged_node :: leader_node where
  "challenged_node = snd (auth_request_1 sample_clock fresh_node ''UAV_A1'' ''K_LongTerm_A1'')"

definition sample_challenge :: challenge where
  "sample_challenge =
     \<lparr>xres_star = calculate_res_star_simulated ''K_LongTerm_A1'' 1700000001500,
      ktx_sim = calculate_session_key_simulated ''K_LongTerm_A1'' 1700000001500,
      rand = 1700000001500,
      issued_at = sample_clock 2\<rparr>"

text \<open>
  A stored chain of three blocks whose links are right and whose last block carries the
  timestamp of the block before it.
\<close>

definition linked_block :: "block \<Rightarrow> nat \<Rightarrow> pyfloat \<Rightarrow> block" where
  "linked_block prev i t =
     \<lparr>index = i, timestamp = t, previous_hash = hash_block prev, event_log = [],
      transactions = [], current_hash = sha256_hexdigest (hash_block prev)\<rparr>"

definition late_chain :: "block list" where
  "late_chain =
     (let g = hd (chain fresh_node);
          b1 = linked_block g 1 (sample_clock 1);
          b2 = linked_block b1 2 (sample_clock 1)
      in [g, b1, b2])"

section \<open>The checks of the verifier at one index\<close>

text \<open>Block \<open>j\<close> passes both checks of the loop: the link and the chronology.\<close>

definition sound_at :: "block list \<Rightarrow> nat \<Rightarrow> bool" where
  "sound_at c j \<longleftrightarrow>
     previous_hash (c ! j) = hash_block (c ! (j - 1)) \<and>
     \<not> float_le (timestamp (c ! j)) (timestamp (c ! (j - 1)))"

section \<open>Properties of the hash engine\<close>

lemma advance_latest_hash: "latest_hash (advance k core) = iterate_hash k (latest_hash core)"
  by (induction k arbitrary: core) (simp_all add: generate_sequential_hash_def Let_def)

lemma advance_difficulty: "difficulty (advance k core) = difficulty core"
  by (induction k arbitrary: core) (simp_all add: generate_sequential_hash_def Let_def)

lemma embed_loop_latest_hash:
  "latest_hash (fst (embed_loop T txs (core, n, log))) =
     poh_digest (difficulty core) (latest_hash core) (map (\<lambda>tx. dumps (JObj tx)) txs)"
proof (induction txs arbitrary: core n log)
  case Nil
  show ?case by simp
next
  case (Cons tx txs)
  show ?case
    by (simp add: embed_transaction_def Let_def Cons.IH advance_latest_hash advance_difficulty)
qed

lemma create_block_current_hash:
  "current_hash (fst (create_block T n core txs prev len)) =
     poh_digest (difficulty core) prev (map (\<lambda>tx. dumps (JObj tx)) txs)"
proof -
  obtain core' n' log where
    e: "embed_loop T txs (core\<lparr>latest_hash := prev, sequence_count := 0\<rparr>, n, []) = (core', n', log)"
    by (cases "embed_loop T txs (core\<lparr>latest_hash := prev, sequence_count := 0\<rparr>, n, [])") auto
  have "latest_hash core' =
      poh_digest (difficulty core) prev (map (\<lambda>tx. dumps (JObj tx)) txs)"
    using embed_loop_latest_hash [of T txs "core\<lparr>latest_hash := prev, sequence_count := 0\<rparr>" n "[]"] e
    by simp
  then show ?thesis by (simp add: create_block_def e)
qed

lemma create_block_fields:
  "index (fst (create_block T n core txs prev len)) = len + 1"
  "previous_hash (fst (create_block T n core txs prev len)) = prev"
  "transactions (fst (create_block T n core txs prev len)) = txs"
  by (simp_all add: create_block_def split: prod.splits)

text \<open>
  C8. Two calls of \<open>create_block\<close> with the same previous hash, the same difficulty and
  transactions of the same sorted-key serialisation produce the same \<open>current_hash\<close>,
  whatever the clocks, the chain lengths and the engines' earlier states are: the resulting
  hash is \<open>poh_digest\<close> of the difficulty, the previous hash and the serialised transactions
  in arrival order, and no timestamp enters it.
\<close>

theorem C8_block_hash_deterministic:
  "(difficulty core1 = difficulty core2 \<and>
      map (\<lambda>tx. dumps (JObj tx)) txs1 = map (\<lambda>tx. dumps (JObj tx)) txs2 \<longrightarrow>
      current_hash (fst (create_block T1 n1 core1 txs1 prev len1)) =
      current_hash (fst (create_block T2 n2 core2 txs2 prev len2))) \<and>
   current_hash (fst (create_block T1 n1 core1 txs1 prev len1)) =
     poh_digest (difficulty core1) prev (map (\<lambda>tx. dumps (JObj tx)) txs1)"
  by (simp add: create_block_current_hash)

theorem C8_block_hash_deterministic_witness:
  "difficulty (EPOH_Core_init 2) =
     difficulty ((EPOH_Core_init 2)\<lparr>latest_hash := ''abc'', sequence_count := 7\<rparr>) \<and>
   map (\<lambda>tx. dumps (JObj tx)) [telemetry_record (Dec False 5 0) ''UAV_A1'' sample_payload] =
     map (\<lambda>tx. dumps (JObj tx)) [telemetry_record (Dec False 5 0) ''UAV_A1'' sample_payload] \<and>
   current_hash (fst (create_block sample_clock 0 (EPOH_Core_init 2)
       [telemetry_record (Dec False 5 0) ''UAV_A1'' sample_payload] ''0'' 1)) =
   current_hash (fst (create_block (\<lambda>k. Dec False 9 0) 4
       ((EPOH_Core_init 2)\<lparr>latest_hash := ''abc'', sequence_count := 7\<rparr>)
       [telemetry_record (Dec False 5 0) ''UAV_A1'' sample_payload] ''0'' 6))"
  using C8_block_hash_deterministic [of "EPOH_Core_init 2"
      "(EPOH_Core_init 2)\<lparr>latest_hash := ''abc'', sequence_count := 7\<rparr>"
      "[telemetry_record (Dec False 5 0) ''UAV_A1'' sample_payload]"
      "[telemetry_record (Dec False 5 0) ''UAV_A1'' sample_payload]"
      sample_clock 0 "''0''" 1 "\<lambda>k. Dec False 9 0" 4 6]
  by (simp add: EPOH_Core_init_def)

section \<open>Properties of the leader node\<close>

text \<open>
  C9. A node started without a ledger file holds exactly one block: index 0, previous hash
  \<open>'0'\<close>, the single marker transaction, and as resulting hash the output of one
  \<open>generate_sequential_hash\<close> step from the initial digest of sixty-four zeros; the block is
  what the ledger file then stores.
\<close>

theorem C9_fresh_chain_is_genesis:
  "chain (LeaderNode_init T Missing n) =
     [\<lparr>index = 0, timestamp = T n, previous_hash = ''0'',
       event_log = [[(''event_type'', JStr ''CHAIN_START'')]],
       transactions = [[(''tx_id'', JStr ''GENESIS_TX''), (''data'', JStr ''System Initialized'')]],
       current_hash = sha256_hexdigest (replicate 64 CHR ''0'')\<rparr>] \<and>
   current_hash (hd (chain (LeaderNode_init T Missing n))) =
     fst (generate_sequential_hash (EPOH_Core_init 2)) \<and>
   ledger (LeaderNode_init T Missing n) = Stored (chain (LeaderNode_init T Missing n))"
  by (simp add: LeaderNode_init_def load_chain_def create_genesis_block_def save_chain_def
      generate_sequential_hash_def EPOH_Core_init_def Let_def)

lemma mine_block_appends:
  assumes "transaction_pool s \<noteq> []" and "chain s \<noteq> []"
  shows "\<exists>s'. mine_block T s = Inr s' \<and> chain s' = chain s @ [new_block T s] \<and>
           transaction_pool s' = [] \<and> ledger s' = Stored (chain s') \<and>
           pending_auth_challenges s' = pending_auth_challenges s"
  using assms
  by (simp add: mine_block_def new_block_def save_chain_def split: prod.splits)

lemma new_block_fields:
  "index (new_block T s) = length (chain s) + 1"
  "previous_hash (new_block T s) = current_hash (last (chain s))"
  "transactions (new_block T s) = transaction_pool s"
  by (simp_all add: new_block_def create_block_def split: prod.splits)

lemma telemetry_tx_received:
  assumes "length (transaction_pool s) < 2"
  shows "telemetry_tx T s u r =
           Inr ([(''status'', JStr ''TX_RECEIVED''), (''hash_seed'', JStr (take 10 (latest_hash (epoh s))))],
                s\<lparr>transaction_pool := transaction_pool s @
                     [telemetry_record (T (clock_reads s)) u (dict_get r ''data'')],
                   clock_reads := Suc (clock_reads s)\<rparr>)"
  using assms by (simp add: telemetry_tx_def Let_def)

lemma telemetry_tx_block_ack:
  assumes "2 \<le> length (transaction_pool s)" and "chain s \<noteq> []"
  shows "\<exists>s' b. telemetry_tx T s u r =
           Inr ([(''status'', JStr ''TX_BLOCK_ACK''), (''hash'', JStr (take 10 (current_hash b))),
                 (''next_hash'', JStr (current_hash b))], s') \<and>
           chain s' = chain s @ [b] \<and>
           transactions b = transaction_pool s @ [telemetry_record (T (clock_reads s)) u (dict_get r ''data'')] \<and>
           previous_hash b = current_hash (last (chain s)) \<and>
           index b = length (chain s) + 1 \<and>
           transaction_pool s' = [] \<and> ledger s' = Stored (chain s') \<and>
           pending_auth_challenges s' = pending_auth_challenges s"
proof -
  let ?s1 = "s\<lparr>transaction_pool := transaction_pool s @
                     [telemetry_record (T (clock_reads s)) u (dict_get r ''data'')],
                   clock_reads := Suc (clock_reads s)\<rparr>"
  have "transaction_pool ?s1 \<noteq> []" "chain ?s1 \<noteq> []" using assms by simp_all
  from mine_block_appends [OF this, of T] obtain s' where
    m: "mine_block T ?s1 = Inr s'" and c: "chain s' = chain ?s1 @ [new_block T ?s1]"
    and p: "transaction_pool s' = []" and l: "ledger s' = Stored (chain s')"
    and q: "pending_auth_challenges s' = pending_auth_challenges ?s1" by blast
  have "telemetry_tx T s u r =
           Inr ([(''status'', JStr ''TX_BLOCK_ACK''), (''hash'', JStr (take 10 (current_hash (new_block T ?s1)))),
                 (''next_hash'', JStr (current_hash (new_block T ?s1)))], s')"
    using assms m c by (simp add: telemetry_tx_def Let_def)
  then show ?thesis using c p l q by (simp add: new_block_fields)
qed

lemma handle_registered:
  assumes "UAV_DB u = Some key" and "dict_get r ''uav_supi'' = JStr u"
  shows "handle_uav_request T s r =
     (if dict_get r ''type'' = JStr ''AUTH_REQUEST_1'' then Inr (auth_request_1 T s u key)
      else if dict_get r ''type'' = JStr ''AUTH_RESPONSE_2'' then auth_response_2 T s u r
      else if dict_get r ''type'' = JStr ''TELEMETRY_TX'' then telemetry_tx T s u r
      else Inr ([(''status'', JStr ''ERROR''), (''reason'', JStr ''Invalid Request Type'')], s))"
  using assms by (simp add: handle_uav_request_def Let_def)

lemma mine_block_pending:
  "mine_block T s = Inr s' \<Longrightarrow> pending_auth_challenges s' = pending_auth_challenges s"
  by (auto simp: mine_block_def save_chain_def split: if_splits prod.splits)

lemma telemetry_tx_data_only:
  "dict_get r ''data'' = dict_get r' ''data'' \<Longrightarrow> telemetry_tx T s u r = telemetry_tx T s u r'"
  by (simp add: telemetry_tx_def)

lemma telemetry_tx_ignores_pending:
  "telemetry_tx T (s\<lparr>pending_auth_challenges := p\<rparr>) u r =
     (case telemetry_tx T s u r of
        Inl e \<Rightarrow> Inl e
      | Inr (resp, s') \<Rightarrow> Inr (resp, s'\<lparr>pending_auth_challenges := p\<rparr>))"
  by (simp add: telemetry_tx_def mine_block_def save_chain_def Let_def split: prod.splits)

lemma telemetry_tx_pending:
  "telemetry_tx T s u r = Inr (resp, s') \<Longrightarrow> pending_auth_challenges s' = pending_auth_challenges s"
  by (auto simp: telemetry_tx_def Let_def split: if_splits sum.splits dest!: mine_block_pending)

lemma auth_request_1_effect:
  "auth_request_1 T s u key =
     ([(''status'', JStr ''CHALLENGE_ISSUED''),
       (''rand'', JInt (float_int (float_times (T (clock_reads s)) 1000))),
       (''autn'', JStr (sha256_hexdigest (key @ u @ str_int (float_int (float_times (T (clock_reads s)) 1000))))),
       (''pk_node'', JStr ''NodePubKey_Sim'')],
      s\<lparr>pending_auth_challenges := (pending_auth_challenges s)
           (u \<mapsto> \<lparr>xres_star = calculate_res_star_simulated key (float_int (float_times (T (clock_reads s)) 1000)),
                 ktx_sim = calculate_session_key_simulated key (float_int (float_times (T (clock_reads s)) 1000)),
                 rand = float_int (float_times (T (clock_reads s)) 1000),
                 issued_at = T (Suc (clock_reads s))\<rparr>),
         clock_reads := Suc (Suc (clock_reads s))\<rparr>)"
  by (simp add: auth_request_1_def generate_auth_vector_simulated_def Let_def
      calculate_res_star_simulated_def)

lemma auth_response_2_mismatch:
  assumes "pending_auth_challenges s u = Some c" and "dict_get r ''res_star'' \<noteq> JStr (xres_star c)"
  shows "auth_response_2 T s u r =
           Inr ([(''status'', JStr ''AUTH_FAILURE''),
                 (''reason'', JStr ''RES* mismatch or no pending challenge'')], s)"
  using assms by (simp add: auth_response_2_def Let_def)

lemma auth_response_2_absent:
  assumes "pending_auth_challenges s u = None"
  shows "auth_response_2 T s u r =
           Inr ([(''status'', JStr ''AUTH_FAILURE''),
                 (''reason'', JStr ''RES* mismatch or no pending challenge'')], s)"
  using assms by (simp add: auth_response_2_def Let_def)

lemma auth_response_2_match:
  assumes "pending_auth_challenges s u = Some c" and "dict_get r ''res_star'' = JStr (xres_star c)"
    and "chain s \<noteq> []"
  shows "\<exists>s' b. auth_response_2 T s u r =
           Inr ([(''status'', JStr ''AUTH_SUCCESS''), (''session_key'', JStr (ktx_sim c))], s') \<and>
           chain s' = chain s @ [b] \<and>
           transactions b = transaction_pool s @ [success_record (T (clock_reads s)) u c] \<and>
           previous_hash b = current_hash (last (chain s)) \<and>
           index b = length (chain s) + 1 \<and>
           transaction_pool s' = [] \<and> ledger s' = Stored (chain s') \<and>
           pending_auth_challenges s' = (pending_auth_challenges s)(u := None)"
proof -
  let ?s1 = "s\<lparr>transaction_pool := transaction_pool s @ [success_record (T (clock_reads s)) u c],
               pending_auth_challenges := (pending_auth_challenges s)(u := None),
               clock_reads := Suc (clock_reads s)\<rparr>"
  have "transaction_pool ?s1 \<noteq> []" "chain ?s1 \<noteq> []" using assms(3) by simp_all
  from mine_block_appends [OF this, of T] obtain s' where
    m: "mine_block T ?s1 = Inr s'" and c: "chain s' = chain ?s1 @ [new_block T ?s1]"
    and p: "transaction_pool s' = []" and l: "ledger s' = Stored (chain s')"
    and q: "pending_auth_challenges s' = pending_auth_challenges ?s1" by blast
  have "auth_response_2 T s u r =
           Inr ([(''status'', JStr ''AUTH_SUCCESS''), (''session_key'', JStr (ktx_sim c))], s')"
    using assms(1,2) m by (simp add: auth_response_2_def Let_def)
  then show ?thesis using c p l q by (simp add: new_block_fields)
qed

lemma auth_response_2_pending:
  assumes "auth_response_2 T s u r = Inr (resp, s')"
  shows "pending_auth_challenges s' = pending_auth_challenges s \<or>
         (\<exists>c. pending_auth_challenges s u = Some c \<and> dict_get r ''res_star'' = JStr (xres_star c)) \<and>
           pending_auth_challenges s' = (pending_auth_challenges s)(u := None)"
  using assms
  by (auto simp: auth_response_2_def Let_def split: option.splits if_splits sum.splits
      dest!: mine_block_pending)

subsection \<open>The chain of a running node\<close>

text \<open>
  The chain of a node is not empty once the node is initialised and it only grows, so the
  properties below, stated for a node with a non-empty chain, hold in every state the node
  reaches. On such a node a request is answered unless its identity cannot be hashed.
\<close>

lemma LeaderNode_init_chain: "chain (LeaderNode_init T f n) \<noteq> []"
  by (cases f)
     (simp_all add: LeaderNode_init_def load_chain_def create_genesis_block_def save_chain_def
        Let_def split: prod.splits)

lemma mine_block_chain:
  "mine_block T s = Inr s' \<Longrightarrow> \<exists>bs. chain s' = chain s @ bs"
  by (auto simp: mine_block_def save_chain_def split: if_splits prod.splits)

lemma handle_uav_request_chain:
  assumes "handle_uav_request T s r = Inr (resp, s')"
  shows "\<exists>bs. chain s' = chain s @ bs"
proof (cases "registry_lookup (dict_get r ''uav_supi'')")
  case (Inl e)
  with assms show ?thesis by (simp add: handle_uav_request_def Let_def)
next
  case (Inr found)
  show ?thesis
  proof (cases found)
    case None
    with Inr assms show ?thesis by (auto simp: handle_uav_request_def Let_def)
  next
    case (Some p)
    obtain u k where p: "p = (u, k)" by (cases p)
    from assms Inr Some p show ?thesis
      by (auto simp: handle_uav_request_def Let_def auth_request_1_effect auth_response_2_def
          telemetry_tx_def split: if_splits option.splits sum.splits dest!: mine_block_chain)
  qed
qed

lemma handle_uav_request_answers:
  assumes "chain s \<noteq> []"
  shows "(\<exists>resp s'. handle_uav_request T s r = Inr (resp, s')) \<or>
         handle_uav_request T s r = Inl TypeError \<and>
           registry_lookup (dict_get r ''uav_supi'') = Inl TypeError"
proof (cases "registry_lookup (dict_get r ''uav_supi'')")
  case (Inl e)
  then have "e = TypeError" by (cases "dict_get r ''uav_supi''") auto
  with Inl show ?thesis by (simp add: handle_uav_request_def Let_def)
next
  case (Inr found)
  show ?thesis
  proof (cases found)
    case None
    with Inr show ?thesis by (simp add: handle_uav_request_def Let_def)
  next
    case (Some p)
    obtain u k where p: "p = (u, k)" by (cases p)
    have m: "\<exists>s'. mine_block T x = Inr s' \<and> chain s' \<noteq> []" if "chain x \<noteq> []" for x
      using that by (auto simp: mine_block_def save_chain_def split: prod.splits)
    have a: "\<exists>resp s'. auth_response_2 T s u r = Inr (resp, s')"
    proof (cases "pending_auth_challenges s u")
      case None
      then show ?thesis by (simp add: auth_response_2_absent)
    next
      case (Some c)
      show ?thesis
      proof (cases "dict_get r ''res_star'' = JStr (xres_star c)")
        case True
        from auth_response_2_match [OF Some True assms, of T] show ?thesis by blast
      next
        case False
        then show ?thesis by (simp add: auth_response_2_mismatch [OF Some])
      qed
    qed
    have t: "\<exists>resp s'. telemetry_tx T s u r = Inr (resp, s')"
    proof (cases "length (transaction_pool s) < 2")
      case True
      then show ?thesis by (simp add: telemetry_tx_received)
    next
      case False
      then have "2 \<le> length (transaction_pool s)" by simp
      from telemetry_tx_block_ack [OF this assms, of T u r] show ?thesis by blast
    qed
    from Inr Some p a t show ?thesis
      by (auto simp: handle_uav_request_def Let_def)
  qed
qed

section \<open>The concrete run\<close>

lemma fresh_node_genesis:
  "chain fresh_node =
     [\<lparr>index = 0, timestamp = sample_clock 0, previous_hash = ''0'',
       event_log = [[(''event_type'', JStr ''CHAIN_START'')]],
       transactions = [[(''tx_id'', JStr ''GENESIS_TX''), (''data'', JStr ''System Initialized'')]],
       current_hash = sha256_hexdigest (replicate 64 CHR ''0'')\<rparr>]"
  by (simp add: fresh_node_def LeaderNode_init_def load_chain_def create_genesis_block_def
      save_chain_def generate_sequential_hash_def EPOH_Core_init_def Let_def)

lemma fresh_node_chain: "chain fresh_node \<noteq> []"
  by (simp add: fresh_node_def LeaderNode_init_def load_chain_def create_genesis_block_def
      save_chain_def Let_def split: prod.splits)

lemma fresh_node_pool: "transaction_pool fresh_node = []"
  by (simp add: fresh_node_def LeaderNode_init_def load_chain_def create_genesis_block_def
      save_chain_def Let_def split: prod.splits)

lemma fresh_node_clock: "clock_reads fresh_node = 1"
  by (simp add: fresh_node_def LeaderNode_init_def load_chain_def create_genesis_block_def
      save_chain_def Let_def split: prod.splits)

lemma fresh_node_issues:
  "handle_uav_request sample_clock fresh_node (auth_request ''UAV_A1'') =
   Inr ([(''status'', JStr ''CHALLENGE_ISSUED''), (''rand'', JInt 1700000001500),
         (''autn'', JStr (sha256_hexdigest (''K_LongTerm_A1'' @ ''UAV_A1'' @ str_int 1700000001500))),
         (''pk_node'', JStr ''NodePubKey_Sim'')], challenged_node)"
  by (simp add: handle_uav_request_def auth_request_def dict_get_def UAV_DB_def Let_def
      challenged_node_def auth_request_1_effect fresh_node_clock sample_clock_def)

lemma challenged_node_pending:
  "pending_auth_challenges challenged_node ''UAV_A1'' = Some sample_challenge"
  by (simp add: challenged_node_def auth_request_1_effect fresh_node_clock sample_clock_def
      sample_challenge_def)

lemma challenged_node_chain: "chain challenged_node \<noteq> []"
  by (simp add: challenged_node_def auth_request_1_effect fresh_node_chain)

section \<open>Evaluating the digests of the concrete run\<close>

lemma sha256_blocks_done: "length ws < 16 \<Longrightarrow> sha256_blocks h ws = h"
  by (simp add: sha256_blocks.simps)

lemma sha256_blocks_more:
  "\<not> length ws < 16 \<Longrightarrow> sha256_blocks h ws = sha256_blocks (compress h (take 16 ws)) (drop 16 ws)"
  by (subst sha256_blocks.simps) simp

lemma replicate_numeral: "replicate (numeral k) x = x # replicate (pred_numeral k) x"
  by (simp add: numeral_eq_Suc)

lemma str_nat_digit: "n < 10 \<Longrightarrow> str_nat n = [digit_char n]"
  by (simp add: str_nat.simps)

lemma str_nat_more: "\<not> n < 10 \<Longrightarrow> str_nat n = str_nat (n div 10) @ [digit_char (n mod 10)]"
  by (subst str_nat.simps) simp

lemmas sha256_eval = sha256_hexdigest_def sha256_digest_def encode_utf8_def sha256_pad_def be64_def
  hex32_def digit_char_def compress_def round_step_def shuffle_def next_w_def sha256_h0_def
  sha256_k_def add32_def rotr_def shr_def not32_def big_sigma0_def big_sigma1_def
  small_sigma0_def small_sigma1_def ch_def maj_def sha256_blocks_done sha256_blocks_more
  replicate_numeral

lemmas text_eval = str_nat_digit str_nat_more digit_char_def str_int_def repr_digits_def pad2_def
  dumps_str_def escape_char_def hex4_def sort_items_def Let_def

lemma sha256_zeros:
  "sha256_hexdigest (replicate 64 CHR ''0'') =
     ''60e05bd1b195af2f94112fa7197a5c88289058840ce7c6df9693756bc6250f55''"
  by (simp add: sha256_eval)

lemma res_star_A1:
  "calculate_res_star_simulated ''K_LongTerm_A1'' 1700000001500 = ''1682d5fcb7''"
proof -
  have "''K_LongTerm_A1'' @ str_int 1700000001500 @ ''Expected'' = ''K_LongTerm_A11700000001500Expected''"
    by (simp add: text_eval)
  moreover have "take 10 (sha256_hexdigest ''K_LongTerm_A11700000001500Expected'') = ''1682d5fcb7''"
    by (simp add: sha256_eval)
  ultimately show ?thesis by (simp add: calculate_res_star_simulated_def)
qed

lemma res_star_B2:
  "calculate_res_star_simulated ''K_LongTerm_B2'' 1700000001500 = ''892192d973''"
proof -
  have "''K_LongTerm_B2'' @ str_int 1700000001500 @ ''Expected'' = ''K_LongTerm_B21700000001500Expected''"
    by (simp add: text_eval)
  moreover have "take 10 (sha256_hexdigest ''K_LongTerm_B21700000001500Expected'') = ''892192d973''"
    by (simp add: sha256_eval)
  ultimately show ?thesis by (simp add: calculate_res_star_simulated_def)
qed

lemma genesis_text:
  "dumps (JObj (filter (\<lambda>kv. fst kv \<noteq> ''current_hash'') (block_dict (hd (chain fresh_node))))) =
   ''{\"event_log\": [{\"event_type\": \"CHAIN_START\"}], \"index\": 0, \"previous_hash\": \"0\", \"timestamp\": 1700000000.5, \"transactions\": [{\"data\": \"System Initialized\", \"tx_id\": \"GENESIS_TX\"}]}''"
  by (simp add: fresh_node_def LeaderNode_init_def load_chain_def create_genesis_block_def
      save_chain_def generate_sequential_hash_def EPOH_Core_init_def block_dict_def sample_clock_def
      text_eval)

lemma genesis_hash:
  "hash_block (hd (chain fresh_node)) =
     ''15b8cce9aafd72e02b1141d8753f487ac384f334526e807916b85d1d23ec5eeb''"
  unfolding hash_block_def genesis_text
  by (simp add: sha256_eval)

section \<open>Telemetry\<close>


lemma half_batch_node_reached:
  "serve sample_clock fresh_node [sample_telemetry, sample_telemetry] =
     Inr ([[(''status'', JStr ''TX_RECEIVED''),
            (''hash_seed'', JStr (take 10 (latest_hash (epoh fresh_node))))],
           [(''status'', JStr ''TX_RECEIVED''),
            (''hash_seed'', JStr (take 10 (latest_hash (epoh fresh_node))))]], half_batch_node)"
proof -
  have a: "UAV_DB ''UAV_A1'' = Some ''K_LongTerm_A1''" by (simp add: UAV_DB_def)
  have t: "dict_get sample_telemetry ''type'' = JStr ''TELEMETRY_TX''"
    "dict_get sample_telemetry ''uav_supi'' = JStr ''UAV_A1''"
    "dict_get sample_telemetry ''data'' = sample_payload"
    by (simp_all add: sample_telemetry_def telemetry_request_def dict_get_def)
  let ?s1 = "fresh_node\<lparr>transaction_pool :=
                 [telemetry_record (sample_clock 1) ''UAV_A1'' sample_payload],
               clock_reads := 2\<rparr>"
  have h1: "handle_uav_request sample_clock fresh_node sample_telemetry =
      Inr ([(''status'', JStr ''TX_RECEIVED''),
            (''hash_seed'', JStr (take 10 (latest_hash (epoh fresh_node))))], ?s1)"
    using a t by (simp add: handle_registered telemetry_tx_received fresh_node_pool fresh_node_clock)
  have h2: "handle_uav_request sample_clock ?s1 sample_telemetry =
      Inr ([(''status'', JStr ''TX_RECEIVED''),
            (''hash_seed'', JStr (take 10 (latest_hash (epoh fresh_node))))], half_batch_node)"
    using a t telemetry_tx_received [of ?s1 sample_clock "''UAV_A1''" sample_telemetry]
    by (simp add: handle_registered half_batch_node_def)
  show ?thesis using h1 h2 by simp
qed




text \<open>
  C10. A \<open>TELEMETRY_TX\<close> request of a registered identity is put into the pool (or, when it
  completes a batch, into the block mined at once) and acknowledged. The answer and the node
  afterwards depend on the request only through its type, identity and payload, and on the
  pending challenges not at all: a request that agrees on these three fields, whatever its
  session-key field holds or lacks, handled on a node with any other table of pending
  challenges (so with or without an earlier authentication) gets the same answer.
\<close>

theorem C10_telemetry_needs_no_session:
  assumes "UAV_DB u = Some key"
    and "dict_get r ''type'' = JStr ''TELEMETRY_TX''" and "dict_get r ''uav_supi'' = JStr u"
    and "dict_get r' ''type'' = dict_get r ''type''" and "dict_get r' ''uav_supi'' = dict_get r ''uav_supi''"
    and "dict_get r' ''data'' = dict_get r ''data''"
    and "chain s \<noteq> []"
  shows "\<exists>resp s'.
           handle_uav_request T s r = Inr (resp, s') \<and>
           (dict_get resp ''status'' = JStr ''TX_RECEIVED'' \<or>
            dict_get resp ''status'' = JStr ''TX_BLOCK_ACK'') \<and>
           (transaction_pool s' =
              transaction_pool s @ [telemetry_record (T (clock_reads s)) u (dict_get r ''data'')] \<or>
            transaction_pool s' = [] \<and>
            transactions (last (chain s')) =
              transaction_pool s @ [telemetry_record (T (clock_reads s)) u (dict_get r ''data'')]) \<and>
           handle_uav_request T (s\<lparr>pending_auth_challenges := p\<rparr>) r' =
             Inr (resp, s'\<lparr>pending_auth_challenges := p\<rparr>)"
proof -
  have h: "handle_uav_request T s r = telemetry_tx T s u r"
    using assms(1-3) by (simp add: handle_registered)
  have h': "handle_uav_request T (s\<lparr>pending_auth_challenges := p\<rparr>) r' =
              telemetry_tx T (s\<lparr>pending_auth_challenges := p\<rparr>) u r"
    using assms(1-6) telemetry_tx_data_only [of r' r]
    by (simp add: handle_registered)
  show ?thesis
  proof (cases "length (transaction_pool s) < 2")
    case True
    show ?thesis
      unfolding h h' telemetry_tx_ignores_pending
      by (simp add: telemetry_tx_received [OF True] dict_get_def)
  next
    case False
    then have "2 \<le> length (transaction_pool s)" by simp
    from telemetry_tx_block_ack [OF this assms(7), of T u r] obtain s' b where
      t: "telemetry_tx T s u r =
           Inr ([(''status'', JStr ''TX_BLOCK_ACK''), (''hash'', JStr (take 10 (current_hash b))),
                 (''next_hash'', JStr (current_hash b))], s')"
      and "chain s' = chain s @ [b]"
      and "transactions b =
             transaction_pool s @ [telemetry_record (T (clock_reads s)) u (dict_get r ''data'')]"
      and "transaction_pool s' = []" by blast
    then show ?thesis
      unfolding h h' telemetry_tx_ignores_pending
      by (simp add: dict_get_def)
  qed
qed

theorem C10_telemetry_needs_no_session_witness:
  "UAV_DB ''UAV_A1'' = Some ''K_LongTerm_A1'' \<and>
   dict_get (telemetry_request ''UAV_A1'' ''0123456789abcdef'' sample_payload) ''type'' = JStr ''TELEMETRY_TX'' \<and>
   dict_get (telemetry_request ''UAV_A1'' ''0123456789abcdef'' sample_payload) ''uav_supi'' = JStr ''UAV_A1'' \<and>
   chain fresh_node \<noteq> [] \<and>
   (\<exists>resp s'.
      handle_uav_request sample_clock fresh_node
        (telemetry_request ''UAV_A1'' ''0123456789abcdef'' sample_payload) = Inr (resp, s') \<and>
      handle_uav_request sample_clock (fresh_node\<lparr>pending_auth_challenges := Map.empty\<rparr>)
        [(''type'', JStr ''TELEMETRY_TX''), (''uav_supi'', JStr ''UAV_A1''), (''data'', sample_payload)] =
        Inr (resp, s'\<lparr>pending_auth_challenges := Map.empty\<rparr>))"
proof -
  let ?r = "telemetry_request ''UAV_A1'' ''0123456789abcdef'' sample_payload"
  let ?r' = "[(''type'', JStr ''TELEMETRY_TX''), (''uav_supi'', JStr ''UAV_A1''), (''data'', sample_payload)]"
  have a: "UAV_DB ''UAV_A1'' = Some ''K_LongTerm_A1''" by (simp add: UAV_DB_def)
  have b: "dict_get ?r ''type'' = JStr ''TELEMETRY_TX''" "dict_get ?r ''uav_supi'' = JStr ''UAV_A1''"
    by (simp_all add: telemetry_request_def dict_get_def)
  have c: "dict_get ?r' ''type'' = dict_get ?r ''type''" "dict_get ?r' ''uav_supi'' = dict_get ?r ''uav_supi''"
    "dict_get ?r' ''data'' = dict_get ?r ''data''"
    by (simp_all add: telemetry_request_def dict_get_def)
  from C10_telemetry_needs_no_session [OF a b c fresh_node_chain, of sample_clock Map.empty]
  show ?thesis using a b fresh_node_chain by blast
qed

lemma three_telemetry_requests:
  assumes "UAV_DB u = Some key" and "transaction_pool s = []" and "chain s \<noteq> []"
    and "dict_get r1 ''type'' = JStr ''TELEMETRY_TX''" and "dict_get r1 ''uav_supi'' = JStr u"
    and "dict_get r2 ''type'' = JStr ''TELEMETRY_TX''" and "dict_get r2 ''uav_supi'' = JStr u"
    and "dict_get r3 ''type'' = JStr ''TELEMETRY_TX''" and "dict_get r3 ''uav_supi'' = JStr u"
  shows "\<exists>s2 s3 b.
           serve T s [r1, r2] =
             Inr ([[(''status'', JStr ''TX_RECEIVED''), (''hash_seed'', JStr (take 10 (latest_hash (epoh s))))],
                   [(''status'', JStr ''TX_RECEIVED''), (''hash_seed'', JStr (take 10 (latest_hash (epoh s))))]],
                  s2) \<and>
           chain s2 = chain s \<and>
           handle_uav_request T s2 r3 =
             Inr ([(''status'', JStr ''TX_BLOCK_ACK''), (''hash'', JStr (take 10 (current_hash b))),
                   (''next_hash'', JStr (current_hash b))], s3) \<and>
           serve T s [r1, r2, r3] =
             Inr ([[(''status'', JStr ''TX_RECEIVED''), (''hash_seed'', JStr (take 10 (latest_hash (epoh s))))],
                   [(''status'', JStr ''TX_RECEIVED''), (''hash_seed'', JStr (take 10 (latest_hash (epoh s))))],
                   [(''status'', JStr ''TX_BLOCK_ACK''), (''hash'', JStr (take 10 (current_hash b))),
                    (''next_hash'', JStr (current_hash b))]], s3) \<and>
           chain s3 = chain s @ [b] \<and>
           transactions b =
             [telemetry_record (T (clock_reads s)) u (dict_get r1 ''data''),
              telemetry_record (T (clock_reads s + 1)) u (dict_get r2 ''data''),
              telemetry_record (T (clock_reads s + 2)) u (dict_get r3 ''data'')] \<and>
           previous_hash b = current_hash (last (chain s)) \<and>
           index b = length (chain s) + 1 \<and>
           transaction_pool s3 = [] \<and> ledger s3 = Stored (chain s3)"
proof -
  let ?s1 = "s\<lparr>transaction_pool := transaction_pool s @
                 [telemetry_record (T (clock_reads s)) u (dict_get r1 ''data'')],
               clock_reads := Suc (clock_reads s)\<rparr>"
  let ?s2 = "?s1\<lparr>transaction_pool := transaction_pool ?s1 @
                 [telemetry_record (T (clock_reads ?s1)) u (dict_get r2 ''data'')],
               clock_reads := Suc (clock_reads ?s1)\<rparr>"
  have h1: "handle_uav_request T s r1 =
      Inr ([(''status'', JStr ''TX_RECEIVED''), (''hash_seed'', JStr (take 10 (latest_hash (epoh s))))], ?s1)"
    using assms(1,2,4,5) by (simp add: handle_registered telemetry_tx_received)
  have h2: "handle_uav_request T ?s1 r2 =
      Inr ([(''status'', JStr ''TX_RECEIVED''), (''hash_seed'', JStr (take 10 (latest_hash (epoh s))))], ?s2)"
    using assms(1,2,6,7) telemetry_tx_received [of ?s1 T u r2] by (simp add: handle_registered)
  have two: "2 \<le> length (transaction_pool ?s2)" "chain ?s2 \<noteq> []"
    using assms(2,3) by simp_all
  from telemetry_tx_block_ack [OF two, of T u r3] obtain s3 b where
    t: "telemetry_tx T ?s2 u r3 =
          Inr ([(''status'', JStr ''TX_BLOCK_ACK''), (''hash'', JStr (take 10 (current_hash b))),
                (''next_hash'', JStr (current_hash b))], s3)"
    and c: "chain s3 = chain ?s2 @ [b]"
    and x: "transactions b =
              transaction_pool ?s2 @ [telemetry_record (T (clock_reads ?s2)) u (dict_get r3 ''data'')]"
    and p: "transaction_pool s3 = []"
    and ph: "previous_hash b = current_hash (last (chain ?s2))"
    and ix: "index b = length (chain ?s2) + 1"
    and lg: "ledger s3 = Stored (chain s3)" by blast
  have h3: "handle_uav_request T ?s2 r3 =
          Inr ([(''status'', JStr ''TX_BLOCK_ACK''), (''hash'', JStr (take 10 (current_hash b))),
                (''next_hash'', JStr (current_hash b))], s3)"
    using assms(1,8,9) t by (simp add: handle_registered)
  have sv: "serve T s [r1, r2] =
             Inr ([[(''status'', JStr ''TX_RECEIVED''), (''hash_seed'', JStr (take 10 (latest_hash (epoh s))))],
                   [(''status'', JStr ''TX_RECEIVED''), (''hash_seed'', JStr (take 10 (latest_hash (epoh s))))]],
                  ?s2)"
    by (simp add: h1 h2)
  have sv3: "serve T s [r1, r2, r3] =
             Inr ([[(''status'', JStr ''TX_RECEIVED''), (''hash_seed'', JStr (take 10 (latest_hash (epoh s))))],
                   [(''status'', JStr ''TX_RECEIVED''), (''hash_seed'', JStr (take 10 (latest_hash (epoh s))))],
                   [(''status'', JStr ''TX_BLOCK_ACK''), (''hash'', JStr (take 10 (current_hash b))),
                    (''next_hash'', JStr (current_hash b))]], s3)"
    using h1 h2 h3 by simp
  have "previous_hash b = current_hash (last (chain s))" "index b = length (chain s) + 1"
    using ph ix by simp_all
  moreover have "chain ?s2 = chain s" by simp
  moreover have "chain s3 = chain s @ [b]" using c by simp
  moreover have "transactions b =
             [telemetry_record (T (clock_reads s)) u (dict_get r1 ''data''),
              telemetry_record (T (clock_reads s + 1)) u (dict_get r2 ''data''),
              telemetry_record (T (clock_reads s + 2)) u (dict_get r3 ''data'')]"
    using x assms(2) by simp
  ultimately show ?thesis using sv sv3 h3 p lg by blast
qed


text \<open>
  C6. From an empty pool, two \<open>TELEMETRY_TX\<close> requests of a registered identity are each
  answered by \<open>TX_RECEIVED\<close> and leave the chain as it was; the third is answered by
  \<open>TX_BLOCK_ACK\<close> and appends exactly one block, which holds the three telemetry
  transactions in arrival order; the pool is empty afterwards.
\<close>

theorem C6_batch_of_three:
  assumes "UAV_DB u = Some key" and "transaction_pool s = []" and "chain s \<noteq> []"
    and "dict_get r1 ''type'' = JStr ''TELEMETRY_TX''" and "dict_get r1 ''uav_supi'' = JStr u"
    and "dict_get r2 ''type'' = JStr ''TELEMETRY_TX''" and "dict_get r2 ''uav_supi'' = JStr u"
    and "dict_get r3 ''type'' = JStr ''TELEMETRY_TX''" and "dict_get r3 ''uav_supi'' = JStr u"
  shows "\<exists>s2 s3 b.
           serve T s [r1, r2] =
             Inr ([[(''status'', JStr ''TX_RECEIVED''), (''hash_seed'', JStr (take 10 (latest_hash (epoh s))))],
                   [(''status'', JStr ''TX_RECEIVED''), (''hash_seed'', JStr (take 10 (latest_hash (epoh s))))]],
                  s2) \<and>
           chain s2 = chain s \<and>
           handle_uav_request T s2 r3 =
             Inr ([(''status'', JStr ''TX_BLOCK_ACK''), (''hash'', JStr (take 10 (current_hash b))),
                   (''next_hash'', JStr (current_hash b))], s3) \<and>
           chain s3 = chain s @ [b] \<and>
           transactions b =
             [telemetry_record (T (clock_reads s)) u (dict_get r1 ''data''),
              telemetry_record (T (clock_reads s + 1)) u (dict_get r2 ''data''),
              telemetry_record (T (clock_reads s + 2)) u (dict_get r3 ''data'')] \<and>
           transaction_pool s3 = []"
  using three_telemetry_requests [OF assms, of T] by blast

theorem C6_batch_of_three_witness:
  "UAV_DB ''UAV_A1'' = Some ''K_LongTerm_A1'' \<and> transaction_pool fresh_node = [] \<and>
   chain fresh_node \<noteq> [] \<and>
   dict_get sample_telemetry ''type'' = JStr ''TELEMETRY_TX'' \<and>
   dict_get sample_telemetry ''uav_supi'' = JStr ''UAV_A1'' \<and>
   (\<exists>s2 s3 b.
      serve sample_clock fresh_node [sample_telemetry, sample_telemetry] =
        Inr ([[(''status'', JStr ''TX_RECEIVED''),
               (''hash_seed'', JStr (take 10 (latest_hash (epoh fresh_node))))],
              [(''status'', JStr ''TX_RECEIVED''),
               (''hash_seed'', JStr (take 10 (latest_hash (epoh fresh_node))))]], s2) \<and>
      chain s2 = chain fresh_node \<and>
      handle_uav_request sample_clock s2 sample_telemetry =
        Inr ([(''status'', JStr ''TX_BLOCK_ACK''), (''hash'', JStr (take 10 (current_hash b))),
              (''next_hash'', JStr (current_hash b))], s3) \<and>
      chain s3 = chain fresh_node @ [b] \<and> length (transactions b) = 3 \<and>
      transaction_pool s3 = [])"
proof -
  have a: "UAV_DB ''UAV_A1'' = Some ''K_LongTerm_A1''" by (simp add: UAV_DB_def)
  have t: "dict_get sample_telemetry ''type'' = JStr ''TELEMETRY_TX''"
    and u: "dict_get sample_telemetry ''uav_supi'' = JStr ''UAV_A1''"
    by (simp_all add: sample_telemetry_def telemetry_request_def dict_get_def)
  from C6_batch_of_three [OF a fresh_node_pool fresh_node_chain t u t u t u, of sample_clock]
  obtain s2 s3 b where
    "serve sample_clock fresh_node [sample_telemetry, sample_telemetry] =
        Inr ([[(''status'', JStr ''TX_RECEIVED''),
               (''hash_seed'', JStr (take 10 (latest_hash (epoh fresh_node))))],
              [(''status'', JStr ''TX_RECEIVED''),
               (''hash_seed'', JStr (take 10 (latest_hash (epoh fresh_node))))]], s2)"
    "chain s2 = chain fresh_node"
    "handle_uav_request sample_clock s2 sample_telemetry =
        Inr ([(''status'', JStr ''TX_BLOCK_ACK''), (''hash'', JStr (take 10 (current_hash b))),
              (''next_hash'', JStr (current_hash b))], s3)"
    "chain s3 = chain fresh_node @ [b]"
    "transactions b =
       [telemetry_record (sample_clock (clock_reads fresh_node)) ''UAV_A1'' (dict_get sample_telemetry ''data''),
        telemetry_record (sample_clock (clock_reads fresh_node + 1)) ''UAV_A1'' (dict_get sample_telemetry ''data''),
        telemetry_record (sample_clock (clock_reads fresh_node + 2)) ''UAV_A1'' (dict_get sample_telemetry ''data'')]"
    "transaction_pool s3 = []" by blast
  moreover from this(5) have "length (transactions b) = 3" by simp
  ultimately show ?thesis using a t u fresh_node_pool fresh_node_chain by blast
qed

section \<open>Authentication\<close>

text \<open>
  What one \<open>AUTH_RESPONSE_2\<close> does to a node that holds a challenge issued for a registered
  identity, when the response value is derived from a key \<open>key'\<close>: the code compares the
  derived value with the stored one and nothing else. A key that derives the stored value is
  accepted; any other is refused and the node stays as it was.
\<close>

lemma response_outcome:
  assumes "UAV_DB u = Some key" and "pending_auth_challenges s u = Some c"
    and "xres_star c = calculate_res_star_simulated key (rand c)"
    and "ktx_sim c = calculate_session_key_simulated key (rand c)"
    and "chain s \<noteq> []"
    and "dict_get r ''type'' = JStr ''AUTH_RESPONSE_2''" and "dict_get r ''uav_supi'' = JStr u"
    and "dict_get r ''res_star'' = JStr (calculate_res_star_simulated key' (rand c))"
  shows "if calculate_res_star_simulated key' (rand c) = calculate_res_star_simulated key (rand c)
         then \<exists>s' b. handle_uav_request T s r =
                Inr ([(''status'', JStr ''AUTH_SUCCESS''),
                      (''session_key'', JStr (calculate_session_key_simulated key (rand c)))], s') \<and>
                pending_auth_challenges s' u = None \<and>
                chain s' = chain s @ [b] \<and>
                transactions b = transaction_pool s @ [success_record (T (clock_reads s)) u c]
         else handle_uav_request T s r =
                Inr ([(''status'', JStr ''AUTH_FAILURE''),
                      (''reason'', JStr ''RES* mismatch or no pending challenge'')], s)"
proof (cases "calculate_res_star_simulated key' (rand c) = calculate_res_star_simulated key (rand c)")
  case True
  then have m: "dict_get r ''res_star'' = JStr (xres_star c)" using assms(3,8) by simp
  from auth_response_2_match [OF assms(2) m assms(5), of T] obtain s' b where
    "auth_response_2 T s u r =
       Inr ([(''status'', JStr ''AUTH_SUCCESS''), (''session_key'', JStr (ktx_sim c))], s')"
    and "chain s' = chain s @ [b]"
    and "transactions b = transaction_pool s @ [success_record (T (clock_reads s)) u c]"
    and "pending_auth_challenges s' = (pending_auth_challenges s)(u := None)" by blast
  then have "\<exists>s' b. handle_uav_request T s r =
            Inr ([(''status'', JStr ''AUTH_SUCCESS''),
                  (''session_key'', JStr (calculate_session_key_simulated key (rand c)))], s') \<and>
            pending_auth_challenges s' u = None \<and>
            chain s' = chain s @ [b] \<and>
            transactions b = transaction_pool s @ [success_record (T (clock_reads s)) u c]"
    using assms(1,4,6,7) by (simp add: handle_registered)
  with True show ?thesis by simp
next
  case False
  then have "dict_get r ''res_star'' \<noteq> JStr (xres_star c)" using assms(3,8) by simp
  from auth_response_2_mismatch [OF assms(2) this, of T]
  have "handle_uav_request T s r =
           Inr ([(''status'', JStr ''AUTH_FAILURE''),
                 (''reason'', JStr ''RES* mismatch or no pending challenge'')], s)"
    using assms(1,6,7) by (simp add: handle_registered)
  with False show ?thesis by simp
qed

text \<open>On the concrete run, the response derived from the key of \<open>UAV_B2\<close> is refused.\<close>

lemma wrong_key_refused:
  "handle_uav_request sample_clock challenged_node
     (auth_response ''UAV_A1'' (calculate_res_star_simulated ''K_LongTerm_B2'' 1700000001500)) =
   Inr ([(''status'', JStr ''AUTH_FAILURE''),
         (''reason'', JStr ''RES* mismatch or no pending challenge'')], challenged_node)"
proof -
  have "UAV_DB ''UAV_A1'' = Some ''K_LongTerm_A1''" by (simp add: UAV_DB_def)
  moreover have "JStr (calculate_res_star_simulated ''K_LongTerm_B2'' 1700000001500) \<noteq>
      JStr (xres_star sample_challenge)"
    by (simp add: sample_challenge_def res_star_A1 res_star_B2)
  ultimately show ?thesis
    using auth_response_2_mismatch [OF challenged_node_pending, of
        "auth_response ''UAV_A1'' (calculate_res_star_simulated ''K_LongTerm_B2'' 1700000001500)"
        sample_clock]
    by (simp add: handle_registered auth_response_def dict_get_def)
qed

text \<open>
  C5. A response that does not match leaves the node as it was, pending challenge, pool and
  chain included, and is answered by \<open>AUTH_FAILURE\<close>; the correctly derived response sent
  after it against the same challenge is answered by \<open>AUTH_SUCCESS\<close> and consumes the
  challenge. Whatever request the node handles, the challenge of the identity is still there
  afterwards unless the request was a matching response of that identity, which deletes it, or
  a new challenge request of that identity, which overwrites it.
\<close>

theorem C5_failed_response_keeps_challenge:
  assumes "UAV_DB u = Some key" and "pending_auth_challenges s u = Some c" and "chain s \<noteq> []"
    and "xres_star c = calculate_res_star_simulated key (rand c)"
    and "dict_get bad ''type'' = JStr ''AUTH_RESPONSE_2''" and "dict_get bad ''uav_supi'' = JStr u"
    and "dict_get bad ''res_star'' \<noteq> JStr (xres_star c)"
    and "dict_get good ''type'' = JStr ''AUTH_RESPONSE_2''" and "dict_get good ''uav_supi'' = JStr u"
    and "dict_get good ''res_star'' = JStr (calculate_res_star_simulated key (rand c))"
    and "handle_uav_request T s req = Inr (resp, s1)"
  shows "handle_uav_request T s bad =
           Inr ([(''status'', JStr ''AUTH_FAILURE''),
                 (''reason'', JStr ''RES* mismatch or no pending challenge'')], s) \<and>
         (\<exists>s'. serve T s [bad, good] =
            Inr ([[(''status'', JStr ''AUTH_FAILURE''),
                   (''reason'', JStr ''RES* mismatch or no pending challenge'')],
                  [(''status'', JStr ''AUTH_SUCCESS''), (''session_key'', JStr (ktx_sim c))]], s') \<and>
            pending_auth_challenges s' u = None) \<and>
         (pending_auth_challenges s1 u = Some c \<or>
          pending_auth_challenges s1 u = None \<and> dict_get req ''type'' = JStr ''AUTH_RESPONSE_2'' \<and>
            dict_get req ''uav_supi'' = JStr u \<and> dict_get req ''res_star'' = JStr (xres_star c) \<or>
          dict_get req ''type'' = JStr ''AUTH_REQUEST_1'' \<and> dict_get req ''uav_supi'' = JStr u)"
proof -
  have b: "handle_uav_request T s bad =
           Inr ([(''status'', JStr ''AUTH_FAILURE''),
                 (''reason'', JStr ''RES* mismatch or no pending challenge'')], s)"
    using assms(1,2,5,6,7) by (simp add: handle_registered auth_response_2_mismatch)
  have gm: "dict_get good ''res_star'' = JStr (xres_star c)" using assms(4,10) by simp
  from auth_response_2_match [OF assms(2) gm assms(3), of T] obtain s' where
    "auth_response_2 T s u good =
       Inr ([(''status'', JStr ''AUTH_SUCCESS''), (''session_key'', JStr (ktx_sim c))], s')"
    and "pending_auth_challenges s' = (pending_auth_challenges s)(u := None)" by blast
  then have g: "handle_uav_request T s good =
       Inr ([(''status'', JStr ''AUTH_SUCCESS''), (''session_key'', JStr (ktx_sim c))], s')"
    and n: "pending_auth_challenges s' u = None"
    using assms(1,8,9) by (simp_all add: handle_registered)
  have sv: "serve T s [bad, good] =
            Inr ([[(''status'', JStr ''AUTH_FAILURE''),
                   (''reason'', JStr ''RES* mismatch or no pending challenge'')],
                  [(''status'', JStr ''AUTH_SUCCESS''), (''session_key'', JStr (ktx_sim c))]], s')"
    by (simp add: b g)
  have only: "pending_auth_challenges s1 u = Some c \<or>
          pending_auth_challenges s1 u = None \<and> dict_get req ''type'' = JStr ''AUTH_RESPONSE_2'' \<and>
            dict_get req ''uav_supi'' = JStr u \<and> dict_get req ''res_star'' = JStr (xres_star c) \<or>
          dict_get req ''type'' = JStr ''AUTH_REQUEST_1'' \<and> dict_get req ''uav_supi'' = JStr u"
  proof (cases "registry_lookup (dict_get req ''uav_supi'')")
    case (Inl e)
    with assms(11) show ?thesis by (simp add: handle_uav_request_def Let_def)
  next
    case (Inr found)
    show ?thesis
    proof (cases found)
      case None
      with Inr assms(11,2) show ?thesis by (auto simp: handle_uav_request_def Let_def)
    next
      case (Some p)
      obtain v k where p: "p = (v, k)" by (cases p)
      have v: "dict_get req ''uav_supi'' = JStr v"
        using Inr Some p by (cases "dict_get req ''uav_supi''") auto
      consider (req1) "dict_get req ''type'' = JStr ''AUTH_REQUEST_1''"
        | (req2) "dict_get req ''type'' \<noteq> JStr ''AUTH_REQUEST_1''" "dict_get req ''type'' = JStr ''AUTH_RESPONSE_2''"
        | (tel) "dict_get req ''type'' \<noteq> JStr ''AUTH_REQUEST_1''" "dict_get req ''type'' \<noteq> JStr ''AUTH_RESPONSE_2''"
            "dict_get req ''type'' = JStr ''TELEMETRY_TX''"
        | (other) "dict_get req ''type'' \<noteq> JStr ''AUTH_REQUEST_1''" "dict_get req ''type'' \<noteq> JStr ''AUTH_RESPONSE_2''"
            "dict_get req ''type'' \<noteq> JStr ''TELEMETRY_TX''"
        by blast
      then show ?thesis
      proof cases
        case req1
        have "s1 = snd (auth_request_1 T s v k)"
          using assms(11) Inr Some p req1 by (simp add: handle_uav_request_def Let_def)
        then show ?thesis using req1 v assms(2) by (auto simp: auth_request_1_effect)
      next
        case req2
        have a: "auth_response_2 T s v req = Inr (resp, s1)"
          using assms(11) Inr Some p req2 by (simp add: handle_uav_request_def Let_def)
        from auth_response_2_pending [OF a] show ?thesis
          using req2 v assms(2) by (cases "v = u") auto
      next
        case tel
        have "telemetry_tx T s v req = Inr (resp, s1)"
          using assms(11) Inr Some p tel by (simp add: handle_uav_request_def Let_def)
        from telemetry_tx_pending [OF this] show ?thesis using assms(2) by simp
      next
        case other
        have "s1 = s"
          using assms(11) Inr Some p other by (simp add: handle_uav_request_def Let_def)
        then show ?thesis using assms(2) by simp
      qed
    qed
  qed
  show ?thesis using b sv n only by blast
qed


theorem C5_failed_response_keeps_challenge_witness:
  "UAV_DB ''UAV_A1'' = Some ''K_LongTerm_A1'' \<and>
   pending_auth_challenges challenged_node ''UAV_A1'' = Some sample_challenge \<and>
   chain challenged_node \<noteq> [] \<and>
   dict_get (auth_response ''UAV_A1'' ''0000000000'') ''res_star'' \<noteq> JStr (xres_star sample_challenge) \<and>
   handle_uav_request sample_clock challenged_node (auth_response ''UAV_A1'' ''0000000000'') =
     Inr ([(''status'', JStr ''AUTH_FAILURE''),
           (''reason'', JStr ''RES* mismatch or no pending challenge'')], challenged_node) \<and>
   (\<exists>s'. serve sample_clock challenged_node
            [auth_response ''UAV_A1'' ''0000000000'',
             auth_response ''UAV_A1'' (calculate_res_star_simulated ''K_LongTerm_A1'' 1700000001500)] =
          Inr ([[(''status'', JStr ''AUTH_FAILURE''),
                 (''reason'', JStr ''RES* mismatch or no pending challenge'')],
                [(''status'', JStr ''AUTH_SUCCESS''),
                 (''session_key'', JStr (ktx_sim sample_challenge))]], s') \<and>
          pending_auth_challenges s' ''UAV_A1'' = None)"
proof -
  let ?bad = "auth_response ''UAV_A1'' ''0000000000''"
  let ?good = "auth_response ''UAV_A1'' (calculate_res_star_simulated ''K_LongTerm_A1'' 1700000001500)"
  let ?failure = "[(''status'', JStr ''AUTH_FAILURE''),
                   (''reason'', JStr ''RES* mismatch or no pending challenge'')]"
  have a: "UAV_DB ''UAV_A1'' = Some ''K_LongTerm_A1''" by (simp add: UAV_DB_def)
  have x: "xres_star sample_challenge =
             calculate_res_star_simulated ''K_LongTerm_A1'' (rand sample_challenge)"
    by (simp add: sample_challenge_def)
  have b: "dict_get ?bad ''type'' = JStr ''AUTH_RESPONSE_2''" "dict_get ?bad ''uav_supi'' = JStr ''UAV_A1''"
    by (simp_all add: auth_response_def dict_get_def)
  have n: "dict_get ?bad ''res_star'' \<noteq> JStr (xres_star sample_challenge)"
    by (simp add: auth_response_def dict_get_def sample_challenge_def res_star_A1)
  have g: "dict_get ?good ''type'' = JStr ''AUTH_RESPONSE_2''" "dict_get ?good ''uav_supi'' = JStr ''UAV_A1''"
    "dict_get ?good ''res_star'' =
       JStr (calculate_res_star_simulated ''K_LongTerm_A1'' (rand sample_challenge))"
    by (simp_all add: auth_response_def dict_get_def sample_challenge_def)
  have h: "handle_uav_request sample_clock challenged_node ?bad = Inr (?failure, challenged_node)"
    using auth_response_2_mismatch [OF challenged_node_pending n, of sample_clock] a b
    by (simp add: handle_registered)
  from C5_failed_response_keeps_challenge
    [OF a challenged_node_pending challenged_node_chain x b n g h]
  show ?thesis using a challenged_node_pending challenged_node_chain n by blast
qed

section \<open>The verifier\<close>

lemma verify_from_step:
  "i < length c \<Longrightarrow> sound_at c i \<Longrightarrow> verify_from c i = verify_from c (Suc i)"
  by (subst verify_from.simps) (simp add: sound_at_def)

lemma verify_from_stop:
  "i < length c \<Longrightarrow> \<not> sound_at c i \<Longrightarrow>
   verify_from c i =
     (if previous_hash (c ! i) \<noteq> hash_block (c ! (i - 1))
      then integrity_failure i (previous_hash (c ! i)) (hash_block (c ! (i - 1)))
      else chronology_failure i)"
  by (subst verify_from.simps) (auto simp: sound_at_def)

lemma verify_from_end: "\<not> i < length c \<Longrightarrow> verify_from c i = (True, ''Chain is fully valid.'', [])"
  by (subst verify_from.simps) simp

lemma verify_from_pass:
  "(\<forall>j. i \<le> j \<and> j < length c \<longrightarrow> sound_at c j) \<Longrightarrow>
   verify_from c i = (True, ''Chain is fully valid.'', [])"
proof (induction c i rule: verify_from.induct)
  case (1 c i)
  show ?case
  proof (cases "i < length c")
    case True
    then have s: "sound_at c i" using "1.prems" by simp
    have "verify_from c (Suc i) = (True, ''Chain is fully valid.'', [])"
      using "1.IH" [OF True refl refl refl] s "1.prems" by (simp add: sound_at_def)
    then show ?thesis using verify_from_step [OF True s] by simp
  next
    case False
    then show ?thesis by (rule verify_from_end)
  qed
qed

lemma verify_from_first:
  "i \<le> k \<Longrightarrow> k < length c \<Longrightarrow> (\<forall>j. i \<le> j \<and> j < k \<longrightarrow> sound_at c j) \<Longrightarrow> \<not> sound_at c k \<Longrightarrow>
   verify_from c i =
     (if previous_hash (c ! k) \<noteq> hash_block (c ! (k - 1))
      then integrity_failure k (previous_hash (c ! k)) (hash_block (c ! (k - 1)))
      else chronology_failure k)"
proof (induction "k - i" arbitrary: i)
  case 0
  then have "i = k" by simp
  with 0 show ?case using verify_from_stop [of k c] by simp
next
  case (Suc d)
  then have lt: "i < k" by simp
  then have "i < length c" "sound_at c i" using Suc.prems by simp_all
  from verify_from_step [OF this] have "verify_from c i = verify_from c (Suc i)" .
  moreover have "verify_from c (Suc i) =
     (if previous_hash (c ! k) \<noteq> hash_block (c ! (k - 1))
      then integrity_failure k (previous_hash (c ! k)) (hash_block (c ! (k - 1)))
      else chronology_failure k)"
    using Suc.hyps(1) [of "Suc i"] Suc.hyps(2) Suc.prems lt by simp
  ultimately show ?case by simp
qed

lemma verify_from_fails:
  assumes "i \<le> k" and "k < length c" and "\<not> sound_at c k"
  shows "\<not> fst (verify_from c i)"
proof -
  define m where "m = (LEAST j. i \<le> j \<and> j < length c \<and> \<not> sound_at c j)"
  have ex: "i \<le> k \<and> k < length c \<and> \<not> sound_at c k" using assms by simp
  have m: "i \<le> m \<and> m < length c \<and> \<not> sound_at c m"
    unfolding m_def by (rule LeastI [of _ k]) (rule ex)
  have "\<forall>j. i \<le> j \<and> j < m \<longrightarrow> sound_at c j"
  proof (intro allI impI)
    fix j assume j: "i \<le> j \<and> j < m"
    show "sound_at c j"
    proof (rule ccontr)
      assume "\<not> sound_at c j"
      then have "i \<le> j \<and> j < length c \<and> \<not> sound_at c j" using j m by simp
      then have "m \<le> j" unfolding m_def by (rule Least_le)
      with j show False by simp
    qed
  qed
  with m have "verify_from c i =
     (if previous_hash (c ! m) \<noteq> hash_block (c ! (m - 1))
      then integrity_failure m (previous_hash (c ! m)) (hash_block (c ! (m - 1)))
      else chronology_failure m)"
    using verify_from_first [of i m c] by blast
  then show ?thesis by (simp add: integrity_failure_def chronology_failure_def)
qed

text \<open>
  C7. On a stored chain the verifier fails exactly when the chain is empty, or the first
  block's previous hash is not \<open>'0'\<close>, or some block from index 1 on carries a previous hash
  other than the recalculated hash of the block before it, or a timestamp that is not
  greater than that of the block before it. A run that does not fail returns the pass result.
  The verifier stops at the first index \<open>k\<close> at which one of the two checks fails: for a
  broken link it returns the integrity failure of \<open>k\<close> and prints the expected and the
  recalculated hash, otherwise it returns the chronology failure of \<open>k\<close>.
\<close>

theorem C7_verify_characterised:
  "(\<not> fst (is_valid_chain (Stored c))) =
     (c = [] \<or> previous_hash (c ! 0) \<noteq> ''0'' \<or>
      (\<exists>i. 1 \<le> i \<and> i < length c \<and> previous_hash (c ! i) \<noteq> hash_block (c ! (i - 1))) \<or>
      (\<exists>i. 1 \<le> i \<and> i < length c \<and> float_le (timestamp (c ! i)) (timestamp (c ! (i - 1))))) \<and>
   (fst (is_valid_chain (Stored c)) \<longrightarrow>
      is_valid_chain (Stored c) = (True, ''Chain is fully valid.'', [])) \<and>
   (c = [] \<longrightarrow> is_valid_chain (Stored c) = (False, ''Chain is empty.'', [])) \<and>
   (c \<noteq> [] \<and> previous_hash (c ! 0) \<noteq> ''0'' \<longrightarrow>
      is_valid_chain (Stored c) =
        (False, ''Genesis Block (Index 0) has an invalid previous_hash.'', [])) \<and>
   (c \<noteq> [] \<and> previous_hash (c ! 0) = ''0'' \<and> 1 \<le> k \<and> k < length c \<and>
    (\<forall>j. 1 \<le> j \<and> j < k \<longrightarrow>
       previous_hash (c ! j) = hash_block (c ! (j - 1)) \<and>
       \<not> float_le (timestamp (c ! j)) (timestamp (c ! (j - 1)))) \<and>
    (previous_hash (c ! k) \<noteq> hash_block (c ! (k - 1)) \<or>
     float_le (timestamp (c ! k)) (timestamp (c ! (k - 1)))) \<longrightarrow>
      is_valid_chain (Stored c) =
        (if previous_hash (c ! k) \<noteq> hash_block (c ! (k - 1))
         then integrity_failure k (previous_hash (c ! k)) (hash_block (c ! (k - 1)))
         else chronology_failure k))"
proof -
  have fails: "\<not> fst (verify_from c 1)" if "1 \<le> i" "i < length c" "\<not> sound_at c i" for i
    using verify_from_fails [OF that] .
  have passes: "verify_from c 1 = (True, ''Chain is fully valid.'', [])"
    if "\<forall>j. 1 \<le> j \<and> j < length c \<longrightarrow> sound_at c j"
    using verify_from_pass [OF that] .
  have iff: "(\<not> fst (verify_from c 1)) = (\<exists>i. 1 \<le> i \<and> i < length c \<and> \<not> sound_at c i)"
    using fails passes by (metis fst_conv)
  have one: "(\<not> fst (is_valid_chain (Stored c))) =
     (c = [] \<or> previous_hash (c ! 0) \<noteq> ''0'' \<or>
      (\<exists>i. 1 \<le> i \<and> i < length c \<and> previous_hash (c ! i) \<noteq> hash_block (c ! (i - 1))) \<or>
      (\<exists>i. 1 \<le> i \<and> i < length c \<and> float_le (timestamp (c ! i)) (timestamp (c ! (i - 1)))))"
    using iff by (auto simp: is_valid_chain_def sound_at_def)
  have two: "fst (is_valid_chain (Stored c)) \<longrightarrow>
      is_valid_chain (Stored c) = (True, ''Chain is fully valid.'', [])"
    using iff passes by (auto simp: is_valid_chain_def split: if_splits)
  have three: "c = [] \<longrightarrow> is_valid_chain (Stored c) = (False, ''Chain is empty.'', [])"
    by (simp add: is_valid_chain_def)
  have four: "c \<noteq> [] \<and> previous_hash (c ! 0) \<noteq> ''0'' \<longrightarrow>
      is_valid_chain (Stored c) =
        (False, ''Genesis Block (Index 0) has an invalid previous_hash.'', [])"
    by (simp add: is_valid_chain_def)
  have five: "c \<noteq> [] \<and> previous_hash (c ! 0) = ''0'' \<and> 1 \<le> k \<and> k < length c \<and>
    (\<forall>j. 1 \<le> j \<and> j < k \<longrightarrow>
       previous_hash (c ! j) = hash_block (c ! (j - 1)) \<and>
       \<not> float_le (timestamp (c ! j)) (timestamp (c ! (j - 1)))) \<and>
    (previous_hash (c ! k) \<noteq> hash_block (c ! (k - 1)) \<or>
     float_le (timestamp (c ! k)) (timestamp (c ! (k - 1)))) \<longrightarrow>
      is_valid_chain (Stored c) =
        (if previous_hash (c ! k) \<noteq> hash_block (c ! (k - 1))
         then integrity_failure k (previous_hash (c ! k)) (hash_block (c ! (k - 1)))
         else chronology_failure k)"
  proof (intro impI, elim conjE)
    assume a: "c \<noteq> []" "previous_hash (c ! 0) = ''0''" "1 \<le> k" "k < length c"
      and b: "\<forall>j. 1 \<le> j \<and> j < k \<longrightarrow>
       previous_hash (c ! j) = hash_block (c ! (j - 1)) \<and>
       \<not> float_le (timestamp (c ! j)) (timestamp (c ! (j - 1)))"
      and d: "previous_hash (c ! k) \<noteq> hash_block (c ! (k - 1)) \<or>
     float_le (timestamp (c ! k)) (timestamp (c ! (k - 1)))"
    have "\<forall>j. 1 \<le> j \<and> j < k \<longrightarrow> sound_at c j" using b by (simp add: sound_at_def)
    moreover have "\<not> sound_at c k" using d by (auto simp: sound_at_def)
    ultimately have "verify_from c 1 =
        (if previous_hash (c ! k) \<noteq> hash_block (c ! (k - 1))
         then integrity_failure k (previous_hash (c ! k)) (hash_block (c ! (k - 1)))
         else chronology_failure k)"
      using verify_from_first [of 1 k c] a by blast
    then show "is_valid_chain (Stored c) =
        (if previous_hash (c ! k) \<noteq> hash_block (c ! (k - 1))
         then integrity_failure k (previous_hash (c ! k)) (hash_block (c ! (k - 1)))
         else chronology_failure k)"
      using a by (simp add: is_valid_chain_def)
  qed
  show ?thesis using one two three four five by blast
qed


theorem C7_verify_characterised_witness:
  "late_chain \<noteq> [] \<and> previous_hash (late_chain ! 0) = ''0'' \<and>
   previous_hash (late_chain ! 1) = hash_block (late_chain ! 0) \<and>
   \<not> float_le (timestamp (late_chain ! 1)) (timestamp (late_chain ! 0)) \<and>
   previous_hash (late_chain ! 2) = hash_block (late_chain ! 1) \<and>
   float_le (timestamp (late_chain ! 2)) (timestamp (late_chain ! 1)) \<and>
   is_valid_chain (Stored late_chain) = chronology_failure 2 \<and>
   \<not> fst (is_valid_chain (Stored late_chain))"
proof -
  have a: "late_chain \<noteq> []" "previous_hash (late_chain ! 0) = ''0''"
    by (simp_all add: late_chain_def Let_def fresh_node_genesis)
  have l1: "previous_hash (late_chain ! 1) = hash_block (late_chain ! 0)"
    and l2: "previous_hash (late_chain ! 2) = hash_block (late_chain ! 1)"
    by (simp_all add: late_chain_def Let_def linked_block_def)
  have t1: "\<not> float_le (timestamp (late_chain ! 1)) (timestamp (late_chain ! 0))"
    and t2: "float_le (timestamp (late_chain ! 2)) (timestamp (late_chain ! 1))"
    by (simp_all add: late_chain_def Let_def linked_block_def fresh_node_genesis float_le_def
        sample_clock_def)
  have before: "\<forall>j. 1 \<le> j \<and> j < 2 \<longrightarrow>
       previous_hash (late_chain ! j) = hash_block (late_chain ! (j - 1)) \<and>
       \<not> float_le (timestamp (late_chain ! j)) (timestamp (late_chain ! (j - 1)))"
  proof (intro allI impI)
    fix j :: nat assume "1 \<le> j \<and> j < 2"
    then have "j = 1" by simp
    then show "previous_hash (late_chain ! j) = hash_block (late_chain ! (j - 1)) \<and>
       \<not> float_le (timestamp (late_chain ! j)) (timestamp (late_chain ! (j - 1)))"
      using l1 t1 by simp
  qed
  have k: "(1::nat) \<le> 2" "2 < length late_chain" by (simp_all add: late_chain_def Let_def)
  from C7_verify_characterised [of late_chain 2] a k before l2 t2
  have "is_valid_chain (Stored late_chain) = chronology_failure 2" by simp
  then show ?thesis using a l1 l2 t1 t2 by (simp add: chronology_failure_def)
qed

section \<open>The verifier on a chain the leader node has mined\<close>

lemma sample_run:
  "\<exists>responses node b.
     serve sample_clock fresh_node [sample_telemetry, sample_telemetry, sample_telemetry] =
       Inr (responses, node) \<and>
     chain node = chain fresh_node @ [b] \<and>
     previous_hash b = current_hash (last (chain fresh_node)) \<and>
     index b = length (chain fresh_node) + 1 \<and>
     ledger node = Stored (chain node)"
proof -
  have a: "UAV_DB ''UAV_A1'' = Some ''K_LongTerm_A1''" by (simp add: UAV_DB_def)
  have t: "dict_get sample_telemetry ''type'' = JStr ''TELEMETRY_TX''"
    and u: "dict_get sample_telemetry ''uav_supi'' = JStr ''UAV_A1''"
    by (simp_all add: sample_telemetry_def telemetry_request_def dict_get_def)
  from three_telemetry_requests [OF a fresh_node_pool fresh_node_chain t u t u t u, of sample_clock]
  show ?thesis by blast
qed

text \<open>
  C1 (the code departs from the claim). \<open>mine_block\<close> gives a new block the
  \<open>current_hash\<close> of the last block as its previous hash, which is the digest of the hash
  engine and not the recalculated hash of that block. On the chain of a fresh node that has
  mined one block from three telemetry transactions, the previous hash of block 1 is
  \<open>60e05bd1...\<close> while the recalculated hash of the genesis block is \<open>15b8cce9...\<close>, and
  the verifier reports an integrity failure at block 1 of this unmodified chain.
\<close>

theorem C1_verifier_rejects_mined_chain:
  "\<exists>responses node.
     serve sample_clock fresh_node [sample_telemetry, sample_telemetry, sample_telemetry] =
       Inr (responses, node) \<and>
     length (chain node) = 2 \<and>
     previous_hash (chain node ! 1) = current_hash (chain node ! 0) \<and>
     previous_hash (chain node ! 1) \<noteq> hash_block (chain node ! 0) \<and>
     ledger node = Stored (chain node) \<and>
     is_valid_chain (ledger node) =
       integrity_failure 1 ''60e05bd1b195af2f94112fa7197a5c88289058840ce7c6df9693756bc6250f55''
         ''15b8cce9aafd72e02b1141d8753f487ac384f334526e807916b85d1d23ec5eeb''"
proof -
  from sample_run obtain responses node b where
    s: "serve sample_clock fresh_node [sample_telemetry, sample_telemetry, sample_telemetry] =
          Inr (responses, node)"
    and c: "chain node = chain fresh_node @ [b]"
    and p: "previous_hash b = current_hash (last (chain fresh_node))"
    and l: "ledger node = Stored (chain node)" by blast
  let ?g = "hd (chain fresh_node)"
  have cg: "chain node = [?g, b]" using c by (simp add: fresh_node_genesis)
  have pg: "previous_hash ?g = ''0''" by (simp add: fresh_node_genesis)
  have pb: "previous_hash b = ''60e05bd1b195af2f94112fa7197a5c88289058840ce7c6df9693756bc6250f55''"
    using p by (simp add: fresh_node_genesis sha256_zeros)
  have cur: "current_hash ?g = previous_hash b" using p by (simp add: fresh_node_genesis)
  have ne: "previous_hash b \<noteq> hash_block ?g" by (simp add: pb genesis_hash)
  have "\<not> sound_at [?g, b] 1" using ne by (simp add: sound_at_def)
  then have "verify_from [?g, b] 1 =
      integrity_failure 1 (previous_hash b) (hash_block ?g)"
    using ne verify_from_stop [of 1 "[?g, b]"] by simp
  then have "is_valid_chain (Stored [?g, b]) =
      integrity_failure 1 ''60e05bd1b195af2f94112fa7197a5c88289058840ce7c6df9693756bc6250f55''
         ''15b8cce9aafd72e02b1141d8753f487ac384f334526e807916b85d1d23ec5eeb''"
    using pg by (simp add: is_valid_chain_def pb genesis_hash)
  then show ?thesis using s l cg cur ne by (intro exI [of _ responses] exI [of _ node]) simp
qed

text \<open>
  C2 (the code departs from the claim). \<open>mine_block\<close> passes the length of the chain to
  \<open>create_block\<close>, which adds one to it: the block appended at position \<open>n\<close> carries the
  index \<open>n + 1\<close>. On the chain of a fresh node that has mined one block, the indices are 0
  and 2.
\<close>

theorem C2_first_mined_block_has_index_two:
  "\<exists>responses node.
     serve sample_clock fresh_node [sample_telemetry, sample_telemetry, sample_telemetry] =
       Inr (responses, node) \<and>
     map index (chain node) = [0, 2]"
proof -
  from sample_run obtain responses node b where
    s: "serve sample_clock fresh_node [sample_telemetry, sample_telemetry, sample_telemetry] =
          Inr (responses, node)"
    and c: "chain node = chain fresh_node @ [b]"
    and i: "index b = length (chain fresh_node) + 1" by blast
  have "map index (chain node) = [0, 2]" using c i by (simp add: fresh_node_genesis)
  then show ?thesis using s by (intro exI [of _ responses] exI [of _ node]) simp
qed


end
